theory Spec2Isabelle
  imports Main
begin

section \<open>JavaScript primitives used by the transcoder\<close>

text \<open>
  The parser (\<^verbatim>\<open>src/parser/JMXParser.ts\<close>) reads numbers with \<^verbatim>\<open>parseInt(value, 10)\<close>, whose
  result is a JavaScript number: an integer or \<^verbatim>\<open>NaN\<close>. Integers are modelled by \<open>int\<close>
  (exact below \<open>2^53\<close>, where a JavaScript number is exact too). Strings are byte strings; the
  white space skipped by \<^verbatim>\<open>parseInt\<close> is the ASCII part of ECMAScript's white space.
\<close>

datatype jsnumber = NaN | Num int

definition isWhiteSpace :: "char \<Rightarrow> bool" where
  "isWhiteSpace c = (c \<in> set [CHR 0x09, CHR 0x0A, CHR 0x0B, CHR 0x0C, CHR 0x0D, CHR 0x20])"

definition isDigit :: "char \<Rightarrow> bool" where
  "isDigit c = (c \<in> set ''0123456789'')"

definition digitVal :: "char \<Rightarrow> nat" where
  "digitVal c = of_char c - 48"

text \<open>\<^verbatim>\<open>parseInt(s, 10)\<close>: skip leading white space, read an optional sign, then the longest
  run of decimal digits; no digit at all gives \<^verbatim>\<open>NaN\<close>.\<close>

definition parseInt :: "string \<Rightarrow> jsnumber" where
  "parseInt s =
     (let t = dropWhile isWhiteSpace s;
          neg = (t \<noteq> [] \<and> hd t = CHR ''-'');
          u = (if t \<noteq> [] \<and> (hd t = CHR ''-'' \<or> hd t = CHR ''+'') then tl t else t);
          ds = takeWhile isDigit u
      in if ds = [] then NaN
         else Num ((if neg then - 1 else 1) * int (foldl (\<lambda>a c. 10 * a + digitVal c) 0 ds)))"

text \<open>\<^verbatim>\<open>Number.prototype.toString()\<close> on the numbers above (decimal digits, as JavaScript prints
  an integer below \<open>10^21\<close>), and \<^verbatim>\<open>Boolean.prototype.toString()\<close>.\<close>

fun digits :: "nat \<Rightarrow> string" where
  "digits n = (if n < 10 then [char_of (48 + n)] else digits (n div 10) @ [char_of (48 + n mod 10)])"

declare digits.simps [simp del]

definition numberToString :: "jsnumber \<Rightarrow> string" where
  "numberToString v =
     (case v of NaN \<Rightarrow> ''NaN''
      | Num i \<Rightarrow> if i < 0 then CHR ''-'' # digits (nat (- i)) else digits (nat i))"

definition boolToString :: "bool \<Rightarrow> string" where
  "boolToString b = (if b then ''true'' else ''false'')"

text \<open>\<^verbatim>\<open>s.includes(p)\<close>: \<open>p\<close> occurs in \<open>s\<close> as a contiguous substring.\<close>

fun includes_str :: "string \<Rightarrow> string \<Rightarrow> bool" where
  "includes_str [] p = (p = [])"
| "includes_str (c # cs) p = (take (length p) (c # cs) = p \<or> includes_str cs p)"

text \<open>A value of TypeScript type \<^verbatim>\<open>number | string\<close>.\<close>

datatype numOrStr = N jsnumber | S string

text \<open>JavaScript truthiness of such values: \<^verbatim>\<open>0\<close>, \<^verbatim>\<open>NaN\<close> and the empty string are falsy.\<close>

fun truthyNumber :: "jsnumber \<Rightarrow> bool" where
  "truthyNumber NaN = False"
| "truthyNumber (Num i) = (i \<noteq> 0)"

fun truthy :: "numOrStr \<Rightarrow> bool" where
  "truthy (N v) = truthyNumber v"
| "truthy (S s) = (s \<noteq> [])"

text \<open>\<^verbatim>\<open>v || d\<close> for an optional string, an optional number and an optional \<^verbatim>\<open>number | string\<close>.\<close>

definition orString :: "string option \<Rightarrow> string \<Rightarrow> string" where
  "orString v d = (case v of None \<Rightarrow> d | Some s \<Rightarrow> if s = [] then d else s)"

definition orNumber :: "jsnumber option \<Rightarrow> jsnumber \<Rightarrow> jsnumber" where
  "orNumber v d = (case v of None \<Rightarrow> d | Some x \<Rightarrow> if truthyNumber x then x else d)"

definition orNumOrStr :: "numOrStr option \<Rightarrow> numOrStr \<Rightarrow> numOrStr" where
  "orNumOrStr v d = (case v of None \<Rightarrow> d | Some x \<Rightarrow> if truthy x then x else d)"

section \<open>The generic node tree handed to the parser\<close>

text \<open>
  \<^verbatim>\<open>JMXParser.parse\<close> calls \<^verbatim>\<open>parseStringPromise(xmlContent, {explicitArray: true, mergeAttrs: true})\<close>
  and works on its result. With these options every XML element becomes either a plain string
  (an element with neither attributes nor child elements: its character data) or an object whose
  keys are the attribute names and the child tag names, each key holding an array (an attribute
  contributes its string value, a child element its own node), plus the key \<^verbatim>\<open>_\<close> holding the
  character data when that is not white space only. \<open>members\<close> lists the keys in the order
  \<^verbatim>\<open>Object.keys\<close> reports them.
\<close>

datatype xnode = XStr string | XObj (chardata: "string option") (members: "(string \<times> xnode list) list")

text \<open>\<^verbatim>\<open>node[key]\<close> for a key other than \<^verbatim>\<open>_\<close>, and \<^verbatim>\<open>node._\<close>; both are \<^verbatim>\<open>undefined\<close> on a string.\<close>

fun field :: "xnode \<Rightarrow> string \<Rightarrow> xnode list option" where
  "field (XStr s) k = None"
| "field (XObj c fs) k = map_of fs k"

fun charsOf :: "xnode \<Rightarrow> string option" where
  "charsOf (XStr s) = None"
| "charsOf (XObj c fs) = c"

text \<open>\<^verbatim>\<open>getStringValue(val)\<close> (lines 168-171) on the array stored under a key: its first entry.\<close>

fun getStringValue :: "xnode list option \<Rightarrow> xnode option" where
  "getStringValue None = None"
| "getStringValue (Some []) = None"
| "getStringValue (Some (x # xs)) = Some x"

text \<open>The same call on \<^verbatim>\<open>prop._\<close>, which is a string and not an array, returns it unchanged.\<close>

definition getStringValueChars :: "string option \<Rightarrow> string option" where
  "getStringValueChars v = v"

text \<open>The callback of every \<^verbatim>\<open>find\<close>: \<^verbatim>\<open>getStringValue(p[attr]) === wanted\<close>.\<close>

definition hasAttr :: "string \<Rightarrow> string \<Rightarrow> xnode \<Rightarrow> bool" where
  "hasAttr attr wanted p = (getStringValue (field p attr) = Some (XStr wanted))"

text \<open>\<^verbatim>\<open>xml[tag]?.find(p => getStringValue(p[attr]) === wanted)\<close>.\<close>

definition findProp :: "xnode \<Rightarrow> string \<Rightarrow> string \<Rightarrow> string \<Rightarrow> xnode option" where
  "findProp xml tg attr wanted =
     (case field xml tg of None \<Rightarrow> None | Some arr \<Rightarrow> find (hasAttr attr wanted) arr)"

subsection \<open>Property accessors (lines 437-505)\<close>

definition parseStringProp :: "xnode \<Rightarrow> string \<Rightarrow> string option" where
  "parseStringProp xml nm =
     (case findProp xml ''stringProp'' ''name'' nm of
        None \<Rightarrow> None
      | Some p \<Rightarrow> getStringValueChars (charsOf p))"

definition parseIntProp :: "xnode \<Rightarrow> string \<Rightarrow> jsnumber option" where
  "parseIntProp xml nm =
     (case findProp xml ''intProp'' ''name'' nm of
        None \<Rightarrow> None
      | Some p \<Rightarrow>
          (case getStringValueChars (charsOf p) of
             None \<Rightarrow> None
           | Some v \<Rightarrow> if v \<noteq> [] then Some (parseInt v) else None))"

definition parseBoolProp :: "xnode \<Rightarrow> string \<Rightarrow> bool" where
  "parseBoolProp xml nm =
     (case findProp xml ''boolProp'' ''name'' nm of
        None \<Rightarrow> False
      | Some p \<Rightarrow> getStringValueChars (charsOf p) = Some ''true'')"

definition parseIntOrStringProp :: "xnode \<Rightarrow> string \<Rightarrow> numOrStr option" where
  "parseIntOrStringProp xml nm =
     (case parseIntProp xml nm of
        Some intVal \<Rightarrow> Some (N intVal)
      | None \<Rightarrow>
          (case parseStringProp xml nm of
             None \<Rightarrow> None
           | Some strVal \<Rightarrow>
               if strVal \<noteq> [] \<and> includes_str strVal ''${'' then Some (S strVal)
               else if strVal \<noteq> [] then
                 Some (if truthyNumber (parseInt strVal) then N (parseInt strVal) else S strVal)
               else None))"

definition parseCollectionProp :: "xnode \<Rightarrow> string \<Rightarrow> string list" where
  "parseCollectionProp xml nm =
     (case findProp xml ''collectionProp'' ''name'' nm of
        None \<Rightarrow> []
      | Some collection \<Rightarrow>
          (case field collection ''stringProp'' of
             None \<Rightarrow> []
           | Some ps \<Rightarrow> map (\<lambda>p. orString (getStringValueChars (charsOf p)) []) ps))"

definition findStringProp :: "xnode \<Rightarrow> string \<Rightarrow> string option" where
  "findStringProp elem nm =
     (case findProp elem ''stringProp'' ''name'' nm of
        None \<Rightarrow> None
      | Some p \<Rightarrow> getStringValueChars (charsOf p))"

definition findBoolProp :: "xnode \<Rightarrow> string \<Rightarrow> bool" where
  "findBoolProp elem nm =
     (case findProp elem ''boolProp'' ''name'' nm of
        None \<Rightarrow> False
      | Some p \<Rightarrow> getStringValueChars (charsOf p) = Some ''true'')"


section \<open>Domain model (\<^verbatim>\<open>model/types.ts\<close>)\<close>

record LoopController =
  loops :: numOrStr
  continueForever :: bool

record Header =
  header_name :: string
  header_value :: string

record Argument =
  arg_name :: string
  arg_value :: string
  arg_metadata :: "string option"

record HTTPArgument =
  harg_name :: string
  harg_value :: string
  harg_metadata :: string
  alwaysEncode :: bool

text \<open>The fields an interface adds to \<^verbatim>\<open>BaseElement\<close>. \<open>BaseFields\<close> stands for an element
  that carries the base fields only, as the parser builds for \<^verbatim>\<open>Arguments\<close>, the JSR223
  kinds, \<^verbatim>\<open>TestAction\<close> and \<^verbatim>\<open>ConstantThroughputTimer\<close>.\<close>

datatype kindFields =
    ThreadGroupFields (numThreads: numOrStr) (rampTime: numOrStr)
      (duration: "numOrStr option") (delay: "numOrStr option")
      (scheduler: bool) (sameUserOnNextIteration: bool) (onSampleError: string)
      (loopController: LoopController)
  | HTTPSamplerFields (domain: string) (port: "jsnumber option") (protocol: string)
      (path: string) (httpMethod: string) (followRedirects: bool) (useKeepAlive: bool)
      (postBodyRaw: bool) (bodyData: "string option") (arguments: "HTTPArgument list")
      (concurrentPool: "jsnumber option") (implementation: "string option")
  | RegexExtractorFields (refName: string) (regex: string) (template: string)
      (defaultValue: string) (matchNumber: numOrStr) (useHeaders: bool)
      (defaultEmptyValue: bool) (scope: "string option")
  | ResponseAssertionFields (testField: string) (testType: jsnumber)
      (testStrings: "string list") (assumeSuccess: bool) (customMessage: "string option")
  | HeaderManagerFields (headers: "Header list")
  | BeanShellAssertionFields (query: string) (filename: "string option")
      (parameters: "string option") (resetInterpreter: bool)
  | ResultCollectorFields (errorLogging: bool)
  | BaseFields

text \<open>\<^verbatim>\<open>BaseElement\<close>: \<open>ident\<close> is the field \<^verbatim>\<open>id\<close>, \<open>etype\<close> the discriminator \<^verbatim>\<open>type\<close>
  (one of the strings of \<^verbatim>\<open>ElementType\<close>).\<close>

datatype element =
  Element (ident: string) (etype: string) (testClass: string) (guiClass: string)
    (name: string) (enabled: bool) (comments: "string option")
    (children: "element list") (kind: kindFields)

record TestPlan =
  tp_id :: string
  tp_type :: string
  tp_testClass :: string
  tp_guiClass :: string
  tp_name :: string
  tp_enabled :: bool
  functionalMode :: bool
  serializeThreadGroups :: bool
  userDefinedVariables :: "Argument list"
  tp_children :: "element list"

record JMeterTestPlan =
  version :: "xnode list option"
  properties :: "xnode list option"
  jmeter :: "xnode list option"
  testPlan :: TestPlan

section \<open>Tree reconstruction (\<^verbatim>\<open>JMXParser\<close>)\<close>

text \<open>
  \<^verbatim>\<open>generateId()\<close> (lines 519-521) draws on the clock and the random generator. The values it
  returns over one run are a parameter of the model, an arbitrary sequence of strings; each call
  takes the head of the sequence and leaves the rest.
\<close>

type_synonym ids = "nat \<Rightarrow> string"

definition generateId :: "ids \<Rightarrow> string \<times> ids" where
  "generateId s = (s 0, \<lambda>n. s (Suc n))"

text \<open>
  \<^verbatim>\<open>this.getStringValue(xml[key]) || d\<close> for the attributes \<^verbatim>\<open>guiclass\<close> and \<^verbatim>\<open>testname\<close>.
  Under a merged key the first entry is the attribute's string whenever the attribute exists.
  A first entry that is a nested node (a child tag of that name on an element without the
  attribute) would put an object into a field declared \<^verbatim>\<open>string\<close>; the model keeps the
  declared type and reads such an entry as absent.
\<close>

definition attrOr :: "xnode \<Rightarrow> string \<Rightarrow> string \<Rightarrow> string" where
  "attrOr xml key d =
     (case getStringValue (field xml key) of
        Some (XStr v) \<Rightarrow> if v = [] then d else v
      | _ \<Rightarrow> d)"

text \<open>\<^verbatim>\<open>this.getStringValue(xml.enabled) !== 'false'\<close>.\<close>

definition enabledOf :: "xnode \<Rightarrow> bool" where
  "enabledOf xml = (getStringValue (field xml ''enabled'') \<noteq> Some (XStr ''false''))"

definition parseLoopController :: "xnode \<Rightarrow> LoopController" where
  "parseLoopController xml =
     (case findProp xml ''elementProp'' ''elementType'' ''LoopController'' of
        Some loopControllerProp \<Rightarrow>
          \<lparr> loops = orNumOrStr (parseIntOrStringProp loopControllerProp ''LoopController.loops'') (N (Num 1)),
            continueForever = parseBoolProp loopControllerProp ''LoopController.continue_forever'' \<rparr>
      | None \<Rightarrow> \<lparr> loops = N (Num 1), continueForever = False \<rparr>)"

text \<open>The lookup shared by \<^verbatim>\<open>parseUserDefinedVariables\<close>, \<^verbatim>\<open>parseBodyData\<close> and
  \<^verbatim>\<open>parseHTTPArguments\<close>: the \<^verbatim>\<open>elementProp\<close> entries of the collection
  \<^verbatim>\<open>Arguments.arguments\<close> inside the \<^verbatim>\<open>elementProp\<close> named \<open>nm\<close>.\<close>

definition argumentElems :: "xnode \<Rightarrow> string \<Rightarrow> xnode list" where
  "argumentElems xml nm =
     (case findProp xml ''elementProp'' ''name'' nm of
        None \<Rightarrow> []
      | Some argsProp \<Rightarrow>
          (case findProp argsProp ''collectionProp'' ''name'' ''Arguments.arguments'' of
             None \<Rightarrow> []
           | Some collection \<Rightarrow>
               (case field collection ''elementProp'' of None \<Rightarrow> [] | Some elems \<Rightarrow> elems)))"

definition parseUserDefinedVariables :: "xnode \<Rightarrow> Argument list" where
  "parseUserDefinedVariables xml =
     map (\<lambda>elem. \<lparr> arg_name = orString (findStringProp elem ''Argument.name'') [],
                   arg_value = orString (findStringProp elem ''Argument.value'') [],
                   arg_metadata = findStringProp elem ''Argument.metadata'' \<rparr>)
         (argumentElems xml ''TestPlan.user_defined_variables'')"

definition parseBodyData :: "xnode \<Rightarrow> string option" where
  "parseBodyData xml =
     (case argumentElems xml ''HTTPsampler.Arguments'' of
        [] \<Rightarrow> None
      | elem # rest \<Rightarrow> findStringProp elem ''Argument.value'')"

definition parseHTTPArguments :: "xnode \<Rightarrow> HTTPArgument list" where
  "parseHTTPArguments xml =
     map (\<lambda>elem. \<lparr> harg_name = orString (findStringProp elem ''Argument.name'') [],
                   harg_value = orString (findStringProp elem ''Argument.value'') [],
                   harg_metadata = orString (findStringProp elem ''Argument.metadata'') [],
                   alwaysEncode = findBoolProp elem ''HTTPArgument.always_encode'' \<rparr>)
         (argumentElems xml ''HTTPsampler.Arguments'')"

text \<open>The headers loop of \<^verbatim>\<open>parseHeaderManager\<close> (lines 244-258).\<close>

definition parseHeaders :: "xnode \<Rightarrow> Header list" where
  "parseHeaders xml =
     (case findProp xml ''collectionProp'' ''name'' ''HeaderManager.headers'' of
        None \<Rightarrow> []
      | Some headersProp \<Rightarrow>
          (case field headersProp ''elementProp'' of
             None \<Rightarrow> []
           | Some elems \<Rightarrow>
               concat (map (\<lambda>elem.
                 let nm = findStringProp elem ''Header.name'';
                     vl = findStringProp elem ''Header.value''
                 in if orString nm [] = [] \<and> orString vl [] = []
                    then []
                    else [\<lparr> header_name = orString nm [], header_value = orString vl [] \<rparr>]) elems)))"

subsection \<open>The element kinds without children of their own\<close>

definition parseRegexExtractor :: "xnode \<Rightarrow> ids \<Rightarrow> element \<times> ids" where
  "parseRegexExtractor xml s =
     (case generateId s of (i, s') \<Rightarrow>
        (Element i ''RegexExtractor'' ''RegexExtractor''
           (attrOr xml ''guiclass'' ''RegexExtractorGui'')
           (attrOr xml ''testname'' ''Regular Expression Extractor'')
           (enabledOf xml) None []
           (RegexExtractorFields
              (orString (parseStringProp xml ''RegexExtractor.refname'') [])
              (orString (parseStringProp xml ''RegexExtractor.regex'') [])
              (orString (parseStringProp xml ''RegexExtractor.template'') ''$1$'')
              (orString (parseStringProp xml ''RegexExtractor.default'') [])
              (orNumOrStr (parseIntOrStringProp xml ''RegexExtractor.match_number'') (N (Num 1)))
              (parseBoolProp xml ''RegexExtractor.useHeaders'')
              (parseBoolProp xml ''RegexExtractor.default_empty_value'')
              (parseStringProp xml ''Sample.scope'')), s'))"

definition parseResponseAssertion :: "xnode \<Rightarrow> ids \<Rightarrow> element \<times> ids" where
  "parseResponseAssertion xml s =
     (let testStrings = parseCollectionProp xml ''Asserion.test_strings''
      in case generateId s of (i, s') \<Rightarrow>
        (Element i ''ResponseAssertion'' ''ResponseAssertion''
           (attrOr xml ''guiclass'' ''AssertionGui'')
           (attrOr xml ''testname'' ''Response Assertion'')
           (enabledOf xml) None []
           (ResponseAssertionFields
              (orString (parseStringProp xml ''Assertion.test_field'') ''response_data'')
              (orNumber (parseIntProp xml ''Assertion.test_type'') (Num 2))
              testStrings
              (parseBoolProp xml ''Assertion.assume_success'')
              (parseStringProp xml ''Assertion.custom_message'')), s'))"

definition parseHeaderManager :: "xnode \<Rightarrow> ids \<Rightarrow> element \<times> ids" where
  "parseHeaderManager xml s =
     (let headers = parseHeaders xml
      in case generateId s of (i, s') \<Rightarrow>
        (Element i ''HeaderManager'' ''HeaderManager''
           (attrOr xml ''guiclass'' ''HeaderPanel'')
           (attrOr xml ''testname'' ''HTTP Header Manager'')
           (enabledOf xml) None [] (HeaderManagerFields headers), s'))"

text \<open>\<^verbatim>\<open>parseArguments\<close>, \<^verbatim>\<open>parseJSR223Sampler\<close>, \<^verbatim>\<open>parseJSR223PostProcessor\<close> and
  \<^verbatim>\<open>parseConstantThroughputTimer\<close> differ only in the three constants.\<close>

definition parseBase :: "string \<Rightarrow> string \<Rightarrow> string \<Rightarrow> xnode \<Rightarrow> ids \<Rightarrow> element \<times> ids" where
  "parseBase ty gui nm xml s =
     (case generateId s of (i, s') \<Rightarrow>
        (Element i ty ty (attrOr xml ''guiclass'' gui) (attrOr xml ''testname'' nm)
           (enabledOf xml) None [] BaseFields, s'))"

definition parseArguments :: "xnode \<Rightarrow> ids \<Rightarrow> element \<times> ids" where
  "parseArguments = parseBase ''Arguments'' ''ArgumentsPanel'' ''User Defined Variables''"

definition parseJSR223Sampler :: "xnode \<Rightarrow> xnode option \<Rightarrow> ids \<Rightarrow> element \<times> ids" where
  "parseJSR223Sampler xml childHashTree = parseBase ''JSR223Sampler'' ''TestBeanGUI'' ''JSR223 Sampler'' xml"

definition parseJSR223PostProcessor :: "xnode \<Rightarrow> ids \<Rightarrow> element \<times> ids" where
  "parseJSR223PostProcessor = parseBase ''JSR223PostProcessor'' ''TestBeanGUI'' ''JSR223 PostProcessor''"

definition parseConstantThroughputTimer :: "xnode \<Rightarrow> ids \<Rightarrow> element \<times> ids" where
  "parseConstantThroughputTimer =
     parseBase ''ConstantThroughputTimer'' ''TestBeanGUI'' ''Constant Throughput Timer''"

definition parseBeanShellAssertion :: "xnode \<Rightarrow> ids \<Rightarrow> element \<times> ids" where
  "parseBeanShellAssertion xml s =
     (case generateId s of (i, s') \<Rightarrow>
        (Element i ''BeanShellAssertion'' ''BeanShellAssertion''
           (attrOr xml ''guiclass'' ''BeanShellAssertionGui'')
           (attrOr xml ''testname'' ''BeanShell Assertion'')
           (enabledOf xml) None []
           (BeanShellAssertionFields
              (orString (parseStringProp xml ''BeanShellAssertion.query'') [])
              (parseStringProp xml ''BeanShellAssertion.filename'')
              (parseStringProp xml ''BeanShellAssertion.parameters'')
              (parseBoolProp xml ''BeanShellAssertion.resetInterpreter'')), s'))"

definition parseResultCollector :: "xnode \<Rightarrow> ids \<Rightarrow> element \<times> ids" where
  "parseResultCollector xml s =
     (case generateId s of (i, s') \<Rightarrow>
        (Element i ''ResultCollector'' ''ResultCollector''
           (attrOr xml ''guiclass'' ''ViewResultsFullVisualizer'')
           (attrOr xml ''testname'' ''View Results Tree'')
           (enabledOf xml) None []
           (ResultCollectorFields (parseBoolProp xml ''ResultCollector.error_logging'')), s'))"

subsection \<open>Reconstruction of a container (lines 66-202, 337-347)\<close>

text \<open>The kind-specific fields of the object literals in \<^verbatim>\<open>parseThreadGroup\<close> and
  \<^verbatim>\<open>parseHTTPSampler\<close>, in the order of the constructor's arguments.\<close>

definition threadGroupFields :: "xnode \<Rightarrow> kindFields" where
  "threadGroupFields xml =
     ThreadGroupFields
       (orNumOrStr (parseIntOrStringProp xml ''ThreadGroup.num_threads'') (N (Num 1)))
       (orNumOrStr (parseIntOrStringProp xml ''ThreadGroup.ramp_time'') (N (Num 1)))
       (parseIntOrStringProp xml ''ThreadGroup.duration'')
       (parseIntOrStringProp xml ''ThreadGroup.delay'')
       (parseBoolProp xml ''ThreadGroup.scheduler'')
       (parseBoolProp xml ''ThreadGroup.same_user_on_next_iteration'')
       (orString (parseStringProp xml ''ThreadGroup.on_sample_error'') ''continue'')
       (parseLoopController xml)"

definition httpSamplerFields :: "xnode \<Rightarrow> kindFields" where
  "httpSamplerFields xml =
     HTTPSamplerFields
       (orString (parseStringProp xml ''HTTPSampler.domain'') [])
       (parseIntProp xml ''HTTPSampler.port'')
       (orString (parseStringProp xml ''HTTPSampler.protocol'') ''https'')
       (orString (parseStringProp xml ''HTTPSampler.path'') ''/'')
       (orString (parseStringProp xml ''HTTPSampler.method'') ''GET'')
       (parseBoolProp xml ''HTTPSampler.follow_redirects'')
       (parseBoolProp xml ''HTTPSampler.use_keepalive'')
       (parseBoolProp xml ''HTTPSampler.postBodyRaw'')
       (parseBodyData xml)
       (parseHTTPArguments xml)
       (parseIntProp xml ''HTTPSampler.concurrentPool'')
       (parseStringProp xml ''HTTPSampler.implementation'')"

text \<open>Truthiness of a child container: \<^verbatim>\<open>undefined\<close> and the empty string (what the node
  tree holds for \<^verbatim>\<open><hashTree/>\<close>) are falsy.\<close>

fun truthyNode :: "xnode option \<Rightarrow> bool" where
  "truthyNode None = False"
| "truthyNode (Some (XStr s)) = (s \<noteq> [])"
| "truthyNode (Some (XObj c fs)) = True"

text \<open>\<^verbatim>\<open>hashTrees[hashTreeIndex]\<close>: \<^verbatim>\<open>undefined\<close> beyond the end of the array.\<close>

definition nthOpt :: "'a list \<Rightarrow> nat \<Rightarrow> 'a option" where
  "nthOpt xs i = (if i < length xs then Some (xs ! i) else None)"

text \<open>The assignment \<^verbatim>\<open>element.children = ...\<close>.\<close>

definition setChildren :: "element \<Rightarrow> element list \<Rightarrow> element" where
  "setChildren e cs = (case e of Element i t tc g n en cm ch k \<Rightarrow> Element i t tc g n en cm cs k)"

text \<open>Lines 92-95: the first entry under \<^verbatim>\<open>testclass\<close>, \<open>None\<close> where \<^verbatim>\<open>parseElement\<close>
  returns \<^verbatim>\<open>null\<close> at once or where no \<^verbatim>\<open>case\<close> label can match (a nested node).\<close>

definition testClassOf :: "xnode \<Rightarrow> string option" where
  "testClassOf xml = (case getStringValue (field xml ''testclass'') of Some (XStr v) \<Rightarrow> if v = [] then None else Some v | _ \<Rightarrow> None)"

text \<open>
  \<^verbatim>\<open>parseHashTree\<close> with its two loops: \<open>parseKeys\<close> is the loop over \<^verbatim>\<open>keys\<close>, \<open>parseArray\<close>
  the loop over one \<^verbatim>\<open>elementArray\<close>. Both return the elements pushed, the value of
  \<^verbatim>\<open>hashTreeIndex\<close> and the remaining identifiers. On a string \<^verbatim>\<open>Object.keys\<close> lists the
  character positions, none of which holds an array, so nothing is pushed.
\<close>

function (sequential)
    parseHashTree :: "xnode option \<Rightarrow> ids \<Rightarrow> element list \<times> ids"
and parseKeys :: "xnode \<Rightarrow> xnode list \<Rightarrow> string list \<Rightarrow> nat \<Rightarrow> ids \<Rightarrow> element list \<times> nat \<times> ids"
and parseArray :: "string \<Rightarrow> xnode list \<Rightarrow> xnode list \<Rightarrow> nat \<Rightarrow> ids \<Rightarrow> element list \<times> nat \<times> ids"
and parseElement :: "string \<Rightarrow> xnode \<Rightarrow> xnode option \<Rightarrow> ids \<Rightarrow> (element \<times> ids) option"
and parseThreadGroup :: "xnode \<Rightarrow> xnode option \<Rightarrow> string \<Rightarrow> ids \<Rightarrow> element \<times> ids"
and parseHTTPSampler :: "xnode \<Rightarrow> xnode option \<Rightarrow> ids \<Rightarrow> element \<times> ids"
and parseTestAction :: "xnode \<Rightarrow> xnode option \<Rightarrow> ids \<Rightarrow> element \<times> ids"
where
  "parseHashTree None s = ([], s)"
| "parseHashTree (Some (XStr v)) s = ([], s)"
| "parseHashTree (Some (XObj c fs)) s =
     (let keys = filter (\<lambda>k. k \<noteq> ''hashTree'') (map fst fs);
          hashTrees = (case map_of fs ''hashTree'' of None \<Rightarrow> [] | Some hts \<Rightarrow> hts)
      in case parseKeys (XObj c fs) hashTrees keys 0 s of (elements, hashTreeIndex, s') \<Rightarrow> (elements, s'))"
| "parseKeys hashTree hashTrees [] hashTreeIndex s = ([], hashTreeIndex, s)"
| "parseKeys hashTree hashTrees (key # keys) hashTreeIndex s =
     (case field hashTree key of
        None \<Rightarrow> parseKeys hashTree hashTrees keys hashTreeIndex s
      | Some elementArray \<Rightarrow>
          (case parseArray key elementArray hashTrees hashTreeIndex s of (es1, hashTreeIndex', s') \<Rightarrow>
             (case parseKeys hashTree hashTrees keys hashTreeIndex' s' of (es2, hashTreeIndex'', s'') \<Rightarrow>
                (es1 @ es2, hashTreeIndex'', s''))))"
| "parseArray key [] hashTrees hashTreeIndex s = ([], hashTreeIndex, s)"
| "parseArray key (elementXml # rest) hashTrees hashTreeIndex s =
     (let childHashTree = nthOpt hashTrees hashTreeIndex
      in case parseElement key elementXml childHashTree s of
           None \<Rightarrow> parseArray key rest hashTrees (Suc hashTreeIndex) s
         | Some (element, s') \<Rightarrow>
             (case parseArray key rest hashTrees (Suc hashTreeIndex) s' of (es, hashTreeIndex', s'') \<Rightarrow>
                (element # es, hashTreeIndex', s'')))"
| "parseElement tagName xml childHashTree s =
     (case testClassOf xml of
        None \<Rightarrow> None
      | Some cls \<Rightarrow>
          if cls = ''ThreadGroup'' \<or> cls = ''SetupThreadGroup'' \<or> cls = ''PostThreadGroup''
            then Some (parseThreadGroup xml childHashTree cls s)
          else if cls = ''HTTPSamplerProxy'' then Some (parseHTTPSampler xml childHashTree s)
          else if cls = ''RegexExtractor'' then Some (parseRegexExtractor xml s)
          else if cls = ''ResponseAssertion'' then Some (parseResponseAssertion xml s)
          else if cls = ''HeaderManager'' then Some (parseHeaderManager xml s)
          else if cls = ''Arguments'' then Some (parseArguments xml s)
          else if cls = ''JSR223Sampler'' then Some (parseJSR223Sampler xml childHashTree s)
          else if cls = ''JSR223PostProcessor'' then Some (parseJSR223PostProcessor xml s)
          else if cls = ''BeanShellAssertion'' then Some (parseBeanShellAssertion xml s)
          else if cls = ''ResultCollector'' then Some (parseResultCollector xml s)
          else if cls = ''TestAction'' then Some (parseTestAction xml childHashTree s)
          else if cls = ''ConstantThroughputTimer'' then Some (parseConstantThroughputTimer xml s)
          else None)"
| "parseThreadGroup xml childHashTree ty s =
     (case generateId s of (i, s1) \<Rightarrow>
        (let threadGroup = Element i ty ty
               (attrOr xml ''guiclass'' ''ThreadGroupGui'')
               (attrOr xml ''testname'' ''Thread Group'')
               (enabledOf xml)
               (parseStringProp xml ''TestPlan.comments'')
               [] (threadGroupFields xml)
         in if truthyNode childHashTree
            then (case parseHashTree childHashTree s1 of (cs, s2) \<Rightarrow> (setChildren threadGroup cs, s2))
            else (threadGroup, s1)))"
| "parseHTTPSampler xml childHashTree s =
     (case generateId s of (i, s1) \<Rightarrow>
        (let sampler = Element i ''HTTPSamplerProxy'' ''HTTPSamplerProxy''
               (attrOr xml ''guiclass'' ''HttpTestSampleGui'')
               (attrOr xml ''testname'' ''HTTP Request'')
               (enabledOf xml)
               (parseStringProp xml ''TestPlan.comments'')
               [] (httpSamplerFields xml)
         in if truthyNode childHashTree
            then (case parseHashTree childHashTree s1 of (cs, s2) \<Rightarrow> (setChildren sampler cs, s2))
            else (sampler, s1)))"
| "parseTestAction xml childHashTree s =
     (case generateId s of (i, s1) \<Rightarrow>
        (case (if truthyNode childHashTree then parseHashTree childHashTree s1 else ([], s1)) of (cs, s2) \<Rightarrow>
           (Element i ''TestAction'' ''TestAction''
              (attrOr xml ''guiclass'' ''TestActionGui'')
              (attrOr xml ''testname'' ''Test Action'')
              (enabledOf xml) None cs BaseFields, s2)))"
  by pat_completeness auto

termination
proof -
  have sz: "size_list size hts < size (XObj c fs)" if "map_of fs k = Some hts"
    for fs :: "(string \<times> xnode list) list" and k hts c
    using that by (induction fs) (auto split: if_splits)
  have nth: "size x < size_list size hts" if "nthOpt hts i = Some x"
    for hts :: "xnode list" and i x
  proof -
    from that have "x \<in> set hts" by (auto simp: nthOpt_def split: if_splits)
    then show ?thesis by (induction hts) auto
  qed
  let ?A = "\<lambda>x. case x of
        Inl (Inl (h, s)) \<Rightarrow> 4 * (case h of None \<Rightarrow> 0 | Some n \<Rightarrow> size n)
      | Inl (Inr (Inl (h, hts, ks, i, s))) \<Rightarrow> 4 * size_list size hts + 2
      | Inl (Inr (Inr (k, arr, hts, i, s))) \<Rightarrow> 4 * size_list size hts + 2
      | Inr (Inl (Inl (t, xml, ch, s))) \<Rightarrow> 4 * (case ch of None \<Rightarrow> 0 | Some n \<Rightarrow> size n) + 1
      | Inr (Inl (Inr (xml, ch, ty, s))) \<Rightarrow> 4 * (case ch of None \<Rightarrow> 0 | Some n \<Rightarrow> size n) + 1
      | Inr (Inr (Inl (xml, ch, s))) \<Rightarrow> 4 * (case ch of None \<Rightarrow> 0 | Some n \<Rightarrow> size n) + 1
      | Inr (Inr (Inr (xml, ch, s))) \<Rightarrow> 4 * (case ch of None \<Rightarrow> 0 | Some n \<Rightarrow> size n) + 1"
  let ?B = "\<lambda>x. case x of
        Inl (Inr (Inl (h, hts, ks, i, s))) \<Rightarrow> Suc (length ks)
      | Inl (Inr (Inr (k, arr, hts, i, s))) \<Rightarrow> 0
      | Inr (Inl (Inl (t, xml, ch, s))) \<Rightarrow> Suc 0
      | _ \<Rightarrow> 0"
  let ?C = "\<lambda>x. case x of
        Inl (Inr (Inr (k, arr, hts, i, s))) \<Rightarrow> length arr
      | _ \<Rightarrow> 0"
  show ?thesis
  proof (relation "measures [?A, ?B, ?C]", goal_cases)
    case 1 show ?case by simp
  next
    case (2 c fs s x xa)
    show ?case using 2 sz[of fs "''hashTree''" _ c] by (auto split: option.splits)
  next
    case (6 key elementXml rest hashTrees hashTreeIndex s x)
    show ?case using nth[of hashTrees hashTreeIndex] by (cases "nthOpt hashTrees hashTreeIndex") (auto simp: 6)
  qed (auto split: option.splits)
qed


text \<open>\<^verbatim>\<open>parseTestPlan\<close> (lines 45-64). The name is the first entry under \<^verbatim>\<open>testname\<close>,
  with no default for the empty string; a first entry that is a nested node is read as absent,
  as in \<open>attrOr\<close>.\<close>

definition parseTestPlan :: "xnode \<Rightarrow> xnode option \<Rightarrow> ids \<Rightarrow> TestPlan \<times> ids" where
  "parseTestPlan xml childrenHashTree s =
     (case generateId s of (i, s1) \<Rightarrow>
        (let plan = \<lparr> tp_id = i, tp_type = ''TestPlan'', tp_testClass = ''TestPlan'',
                      tp_guiClass = ''TestPlanGui'',
                      tp_name = (case field xml ''testname'' of
                                   Some (XStr v # rest) \<Rightarrow> v
                                 | _ \<Rightarrow> ''Test Plan''),
                      tp_enabled = True,
                      functionalMode = parseBoolProp xml ''TestPlan.functional_mode'',
                      serializeThreadGroups = parseBoolProp xml ''TestPlan.serialize_threadgroups'',
                      userDefinedVariables = parseUserDefinedVariables xml,
                      tp_children = [] \<rparr>
         in if truthyNode childrenHashTree
            then (case parseHashTree childrenHashTree s1 of (cs, s2) \<Rightarrow> (plan\<lparr> tp_children := cs \<rparr>, s2))
            else (plan, s1)))"

section \<open>Documents, and the node tree built from them\<close>

text \<open>
  An XML document as the text denotes it: an element has a tag, attributes, child elements in
  document order, and character data (the concatenation of its text chunks). Reading the text
  into this tree and printing the tree as text are the work of the two libraries and are taken
  as inverse to each other.
\<close>

datatype xml = Elem (tagOf: string) (attrsOf: "(string \<times> string) list") (kidsOf: "xml list") (charsIn: string)

text \<open>
  The node tree that \<^verbatim>\<open>parseStringPromise\<close> of the library xml2js returns for a document, under
  the options of line 26-29 (\<^verbatim>\<open>explicitArray: true, mergeAttrs: true\<close>, the others at their
  defaults). The library is not part of the repository; this is its documented behaviour:
  attributes are merged into the element's object first, then each child is stored under its tag
  name by \<^verbatim>\<open>assignOrPush\<close>, which appends to the array already under that name. Children are
  therefore grouped by tag name, the groups ordered by the first occurrence of each name; the
  relative order of children with different names is not kept. An element with no attribute and
  no child becomes its character data; white space only character data is dropped from an object.
  Documents are taken to have no tag or attribute named \<^verbatim>\<open>_\<close>, the key of the character data,
  and no CDATA section.
\<close>

fun assignOrPush :: "(string \<times> xnode list) list \<Rightarrow> string \<Rightarrow> xnode \<Rightarrow> (string \<times> xnode list) list" where
  "assignOrPush [] key newValue = [(key, [newValue])]"
| "assignOrPush ((k, arr) # obj) key newValue =
     (if k = key then (k, arr @ [newValue]) # obj else (k, arr) # assignOrPush obj key newValue)"

fun xml2js :: "xml \<Rightarrow> xnode" where
  "xml2js (Elem t as ks cd) =
     (let obj = foldl (\<lambda>obj kv. assignOrPush obj (fst kv) (snd kv)) []
                  (map (\<lambda>a. (fst a, XStr (snd a))) as @ map (\<lambda>kid. (tagOf kid, xml2js kid)) ks)
      in if obj = [] then XStr cd
         else XObj (if list_all isWhiteSpace cd then None else Some cd) obj)"

text \<open>
  \<^verbatim>\<open>JMXParser.parse\<close> (lines 25-43). The result of the library is \<^verbatim>\<open>{<root tag>: <root node>}\<close>.
  Reading a property of \<^verbatim>\<open>undefined\<close> throws a \<^verbatim>\<open>TypeError\<close>, which rejects the promise.
\<close>

datatype error = TypeError

definition parse :: "xml \<Rightarrow> ids \<Rightarrow> error + JMeterTestPlan" where
  "parse doc s =
     (if tagOf doc \<noteq> ''jmeterTestPlan'' then Inl TypeError
      else let root = xml2js doc in
        (case field root ''hashTree'' of
           None \<Rightarrow> Inl TypeError
         | Some [] \<Rightarrow> Inl TypeError
         | Some (hashTree # rest) \<Rightarrow>
             (case field hashTree ''TestPlan'' of
                None \<Rightarrow> Inl TypeError
              | Some [] \<Rightarrow> Inl TypeError
              | Some (testPlanXml # rest') \<Rightarrow>
                  (case field hashTree ''hashTree'' of
                     None \<Rightarrow> Inl TypeError
                   | Some containers \<Rightarrow>
                       Inr \<lparr> version = field root ''version'',
                             properties = field root ''properties'',
                             jmeter = field root ''jmeter'',
                             testPlan = fst (parseTestPlan testPlanXml (nthOpt containers 0) s) \<rparr>))))"


section \<open>Tree flattening (\<^verbatim>\<open>JMXSerializer\<close>)\<close>

text \<open>
  The serializer builds the document with xmlbuilder2: \<^verbatim>\<open>parent.ele(tag, attributes)\<close> appends a
  child element and returns it, \<^verbatim>\<open>.txt(s)\<close> gives it character data. Each \<open>serialize...\<close>
  function of the model returns the element it appends. A function that is handed an element
  without the fields of the interface it casts to reads \<^verbatim>\<open>undefined\<close> and calls a method on it
  (or iterates it), which throws a \<^verbatim>\<open>TypeError\<close>.
\<close>

text \<open>\<^verbatim>\<open>parent.ele(propType, { name }).txt(value)\<close>.\<close>

definition propElem :: "string \<Rightarrow> string \<Rightarrow> string \<Rightarrow> xml" where
  "propElem propType nm v = Elem propType [(''name'', nm)] [] v"

text \<open>\<^verbatim>\<open>addProp\<close> (lines 344-347): a string as it is, a number through \<^verbatim>\<open>toString()\<close>.\<close>

definition addProp :: "string \<Rightarrow> string \<Rightarrow> numOrStr \<Rightarrow> xml" where
  "addProp propType nm v =
     propElem propType nm (case v of S str \<Rightarrow> str | N num \<Rightarrow> numberToString num)"

text \<open>The attribute object every element kind is created with.\<close>

definition baseAttrs :: "element \<Rightarrow> (string \<times> string) list" where
  "baseAttrs e =
     [(''guiclass'', guiClass e), (''testclass'', testClass e), (''testname'', name e),
      (''enabled'', boolToString (enabled e))]"

text \<open>\<^verbatim>\<open>if (v) elem.ele('stringProp', { name }).txt(v)\<close> for an optional string.\<close>

definition optStringProp :: "string \<Rightarrow> string option \<Rightarrow> xml list" where
  "optStringProp nm v =
     (case v of None \<Rightarrow> [] | Some str \<Rightarrow> if str = [] then [] else [propElem ''stringProp'' nm str])"

text \<open>\<^verbatim>\<open>if (v) elem.ele('intProp', { name }).txt(v.toString())\<close> for an optional number.\<close>

definition optIntProp :: "string \<Rightarrow> jsnumber option \<Rightarrow> xml list" where
  "optIntProp nm v =
     (case v of None \<Rightarrow> []
      | Some num \<Rightarrow> if truthyNumber num then [propElem ''intProp'' nm (numberToString num)] else [])"

text \<open>\<^verbatim>\<open>if (v !== undefined) this.addProp(elem, 'stringProp', name, v)\<close>.\<close>

definition optAddProp :: "string \<Rightarrow> numOrStr option \<Rightarrow> xml list" where
  "optAddProp nm v = (case v of None \<Rightarrow> [] | Some x \<Rightarrow> [addProp ''stringProp'' nm x])"

definition serializeThreadGroup :: "element \<Rightarrow> error + xml" where
  "serializeThreadGroup tg =
     (case kind tg of
        ThreadGroupFields nThreads ramp dur del sched sameUser onErr lc \<Rightarrow>
          Inr (Elem (etype tg) (baseAttrs tg)
            (optStringProp ''TestPlan.comments'' (comments tg)
             @ [addProp ''intProp'' ''ThreadGroup.num_threads'' nThreads,
                addProp ''intProp'' ''ThreadGroup.ramp_time'' ramp]
             @ optAddProp ''ThreadGroup.duration'' dur
             @ optAddProp ''ThreadGroup.delay'' del
             @ [propElem ''boolProp'' ''ThreadGroup.same_user_on_next_iteration'' (boolToString sameUser),
                propElem ''boolProp'' ''ThreadGroup.scheduler'' (boolToString sched),
                propElem ''stringProp'' ''ThreadGroup.on_sample_error'' onErr,
                Elem ''elementProp''
                  [(''name'', ''ThreadGroup.main_controller''), (''elementType'', ''LoopController''),
                   (''guiclass'', ''LoopControlPanel''), (''testclass'', ''LoopController''),
                   (''testname'', ''Loop Controller'')]
                  [addProp ''intProp'' ''LoopController.loops'' (loops lc),
                   propElem ''boolProp'' ''LoopController.continue_forever'' (boolToString (continueForever lc))]
                  []])
            [])
      | _ \<Rightarrow> Inl TypeError)"

definition serializeHTTPSampler :: "element \<Rightarrow> error + xml" where
  "serializeHTTPSampler sampler =
     (case kind sampler of
        HTTPSamplerFields dmn prt proto pth meth follow keepAlive raw body args pool impl \<Rightarrow>
          Inr (Elem ''HTTPSamplerProxy'' (baseAttrs sampler)
            (optStringProp ''TestPlan.comments'' (comments sampler)
             @ optIntProp ''HTTPSampler.concurrentPool'' pool
             @ [propElem ''stringProp'' ''HTTPSampler.domain'' dmn,
                propElem ''stringProp'' ''HTTPSampler.protocol'' proto,
                propElem ''stringProp'' ''HTTPSampler.path'' pth,
                propElem ''boolProp'' ''HTTPSampler.follow_redirects'' (boolToString follow),
                propElem ''stringProp'' ''HTTPSampler.method'' meth,
                propElem ''boolProp'' ''HTTPSampler.use_keepalive'' (boolToString keepAlive),
                propElem ''boolProp'' ''HTTPSampler.postBodyRaw'' (boolToString raw)]
             @ optIntProp ''HTTPSampler.port'' prt
             @ optStringProp ''HTTPSampler.implementation'' impl
             @ [Elem ''elementProp'' [(''name'', ''HTTPsampler.Arguments''), (''elementType'', ''Arguments'')]
                  [Elem ''collectionProp'' [(''name'', ''Arguments.arguments'')]
                     (map (\<lambda>arg. Elem ''elementProp''
                                    [(''name'', harg_name arg), (''elementType'', ''HTTPArgument'')]
                                    [propElem ''boolProp'' ''HTTPArgument.always_encode'' (boolToString (alwaysEncode arg)),
                                     propElem ''stringProp'' ''Argument.value'' (harg_value arg),
                                     propElem ''stringProp'' ''Argument.metadata'' (harg_metadata arg)]
                                    []) args)
                     []]
                  []])
            [])
      | _ \<Rightarrow> Inl TypeError)"

definition serializeRegexExtractor :: "element \<Rightarrow> error + xml" where
  "serializeRegexExtractor extractor =
     (case kind extractor of
        RegexExtractorFields rname rx tmpl dflt matchNo useHdrs dfltEmpty scp \<Rightarrow>
          Inr (Elem ''RegexExtractor'' (baseAttrs extractor)
            ([propElem ''boolProp'' ''RegexExtractor.useHeaders'' (boolToString useHdrs),
              propElem ''stringProp'' ''RegexExtractor.refname'' rname,
              propElem ''stringProp'' ''RegexExtractor.regex'' rx,
              propElem ''stringProp'' ''RegexExtractor.template'' tmpl,
              propElem ''stringProp'' ''RegexExtractor.default'' dflt,
              addProp ''intProp'' ''RegexExtractor.match_number'' matchNo,
              propElem ''boolProp'' ''RegexExtractor.default_empty_value'' (boolToString dfltEmpty)]
             @ optStringProp ''Sample.scope'' scp)
            [])
      | _ \<Rightarrow> Inl TypeError)"

definition serializeResponseAssertion :: "element \<Rightarrow> error + xml" where
  "serializeResponseAssertion assertion =
     (case kind assertion of
        ResponseAssertionFields fld ty strs assume msg \<Rightarrow>
          Inr (Elem ''ResponseAssertion'' (baseAttrs assertion)
            ([Elem ''collectionProp'' [(''name'', ''Asserion.test_strings'')]
                (map (\<lambda>str. propElem ''stringProp'' (take 10 str) str) strs) []]
             @ optStringProp ''Assertion.custom_message'' msg
             @ [propElem ''stringProp'' ''Assertion.test_field'' fld,
                propElem ''boolProp'' ''Assertion.assume_success'' (boolToString assume),
                propElem ''intProp'' ''Assertion.test_type'' (numberToString ty)])
            [])
      | _ \<Rightarrow> Inl TypeError)"

definition serializeHeaderManager :: "element \<Rightarrow> error + xml" where
  "serializeHeaderManager manager =
     (case kind manager of
        HeaderManagerFields hdrs \<Rightarrow>
          Inr (Elem ''HeaderManager'' (baseAttrs manager)
            (optStringProp ''TestPlan.comments'' (comments manager)
             @ [Elem ''collectionProp'' [(''name'', ''HeaderManager.headers'')]
                  (map (\<lambda>header. Elem ''elementProp''
                                      [(''name'', header_name header), (''elementType'', ''Header'')]
                                      [propElem ''stringProp'' ''Header.name'' (header_name header),
                                       propElem ''stringProp'' ''Header.value'' (header_value header)]
                                      []) hdrs)
                  []])
            [])
      | _ \<Rightarrow> Inl TypeError)"

definition serializeBeanShellAssertion :: "element \<Rightarrow> error + xml" where
  "serializeBeanShellAssertion assertion =
     (case kind assertion of
        BeanShellAssertionFields qry fname params reset \<Rightarrow>
          Inr (Elem ''BeanShellAssertion'' (baseAttrs assertion)
            ([propElem ''stringProp'' ''BeanShellAssertion.query'' qry]
             @ optStringProp ''BeanShellAssertion.filename'' fname
             @ optStringProp ''BeanShellAssertion.parameters'' params
             @ [propElem ''boolProp'' ''BeanShellAssertion.resetInterpreter'' (boolToString reset)])
            [])
      | _ \<Rightarrow> Inl TypeError)"

text \<open>The remaining kinds read the base fields only, so they cannot fail.\<close>

definition serializeArguments :: "element \<Rightarrow> xml" where
  "serializeArguments e =
     Elem ''Arguments'' (baseAttrs e) [Elem ''collectionProp'' [(''name'', ''Arguments.arguments'')] [] []] []"

definition serializeJSR223Element :: "element \<Rightarrow> xml" where
  "serializeJSR223Element e =
     Elem (etype e) (baseAttrs e)
       [propElem ''stringProp'' ''scriptLanguage'' ''groovy'',
        propElem ''stringProp'' ''parameters'' [],
        propElem ''stringProp'' ''filename'' [],
        propElem ''stringProp'' ''cacheKey'' ''true'',
        propElem ''stringProp'' ''script'' []] []"

definition serializeResultCollector :: "element \<Rightarrow> xml" where
  "serializeResultCollector e =
     Elem ''ResultCollector'' (baseAttrs e)
       [propElem ''boolProp'' ''ResultCollector.error_logging'' ''false'',
        propElem ''stringProp'' ''filename'' []] []"

definition serializeTestAction :: "element \<Rightarrow> xml" where
  "serializeTestAction e =
     Elem ''TestAction'' (baseAttrs e)
       [propElem ''intProp'' ''ActionProcessor.action'' ''1'',
        propElem ''intProp'' ''ActionProcessor.target'' ''0'',
        propElem ''stringProp'' ''ActionProcessor.duration'' ''0''] []"

definition serializeConstantThroughputTimer :: "element \<Rightarrow> xml" where
  "serializeConstantThroughputTimer e =
     Elem ''ConstantThroughputTimer'' (baseAttrs e)
       [propElem ''intProp'' ''calcMode'' ''0'',
        propElem ''stringProp'' ''throughput'' ''0''] []"

text \<open>\<^verbatim>\<open>serializeElement\<close> (lines 77-116): the nodes appended to \<^verbatim>\<open>parent\<close>. The \<^verbatim>\<open>switch\<close> has
  no \<^verbatim>\<open>default\<close> label; a type without a \<^verbatim>\<open>case\<close> appends nothing.\<close>

definition serializeElement :: "element \<Rightarrow> error + xml list" where
  "serializeElement e =
     (let ty = etype e; one = map_sum id (\<lambda>x. [x]) in
      if ty = ''ThreadGroup'' \<or> ty = ''SetupThreadGroup'' \<or> ty = ''PostThreadGroup''
        then one (serializeThreadGroup e)
      else if ty = ''HTTPSamplerProxy'' then one (serializeHTTPSampler e)
      else if ty = ''RegexExtractor'' then one (serializeRegexExtractor e)
      else if ty = ''ResponseAssertion'' then one (serializeResponseAssertion e)
      else if ty = ''HeaderManager'' then one (serializeHeaderManager e)
      else if ty = ''BeanShellAssertion'' then one (serializeBeanShellAssertion e)
      else if ty = ''Arguments'' then Inr [serializeArguments e]
      else if ty = ''JSR223Sampler'' \<or> ty = ''JSR223PostProcessor'' then Inr [serializeJSR223Element e]
      else if ty = ''ResultCollector'' then Inr [serializeResultCollector e]
      else if ty = ''TestAction'' then Inr [serializeTestAction e]
      else if ty = ''ConstantThroughputTimer'' then Inr [serializeConstantThroughputTimer e]
      else Inr [])"

text \<open>\<^verbatim>\<open>serializeChildren\<close> (lines 67-75): for each child its own node, then a \<^verbatim>\<open>hashTree\<close>
  element, filled when the child has children.\<close>

fun serializeChildren :: "element list \<Rightarrow> error + xml list" where
  "serializeChildren [] = Inr []"
| "serializeChildren (Element i ty tc gc nm en cm cs k # rest) =
     (case serializeElement (Element i ty tc gc nm en cm cs k) of
        Inl err \<Rightarrow> Inl err
      | Inr own \<Rightarrow>
          (case (if cs \<noteq> [] then serializeChildren cs else Inr []) of
             Inl err \<Rightarrow> Inl err
           | Inr sub \<Rightarrow>
               (case serializeChildren rest of
                  Inl err \<Rightarrow> Inl err
                | Inr others \<Rightarrow> Inr (own @ [Elem ''hashTree'' [] sub []] @ others))))"

text \<open>\<^verbatim>\<open>serializeTestPlan\<close> (lines 31-65): the \<^verbatim>\<open>TestPlan\<close> element and its container.\<close>

definition serializeTestPlan :: "TestPlan \<Rightarrow> error + xml list" where
  "serializeTestPlan plan =
     (case serializeChildren (tp_children plan) of
        Inl err \<Rightarrow> Inl err
      | Inr sub \<Rightarrow>
          Inr [Elem ''TestPlan''
                 [(''guiclass'', tp_guiClass plan), (''testclass'', tp_testClass plan),
                  (''testname'', tp_name plan)]
                 [Elem ''elementProp''
                    [(''name'', ''TestPlan.user_defined_variables''), (''elementType'', ''Arguments''),
                     (''guiclass'', ''ArgumentsPanel''), (''testclass'', ''Arguments''),
                     (''testname'', ''User Defined Variables'')]
                    [Elem ''collectionProp'' [(''name'', ''Arguments.arguments'')]
                       (map (\<lambda>arg. Elem ''elementProp''
                                      [(''name'', arg_name arg), (''elementType'', ''Argument'')]
                                      ([propElem ''stringProp'' ''Argument.name'' (arg_name arg),
                                        propElem ''stringProp'' ''Argument.value'' (arg_value arg)]
                                       @ optStringProp ''Argument.metadata'' (arg_metadata arg))
                                      []) (userDefinedVariables plan))
                       []]
                    [],
                  propElem ''boolProp'' ''TestPlan.functional_mode'' (boolToString (functionalMode plan)),
                  propElem ''boolProp'' ''TestPlan.serialize_threadgroups'' (boolToString (serializeThreadGroups plan))]
                 [],
               Elem ''hashTree'' [] sub []])"

text \<open>
  The attributes of the root element carry what \<^verbatim>\<open>parse\<close> stored, an array or \<^verbatim>\<open>undefined\<close>.
  xmlbuilder2 leaves out an attribute whose value is \<^verbatim>\<open>undefined\<close> and converts any other
  value to a string, an array by joining its entries with commas.
\<close>

fun nodeToString :: "xnode \<Rightarrow> string" where
  "nodeToString (XStr v) = v"
| "nodeToString (XObj c fs) = ''[object Object]''"

fun joinComma :: "string list \<Rightarrow> string" where
  "joinComma [] = []"
| "joinComma [x] = x"
| "joinComma (x # y # zs) = x @ '','' @ joinComma (y # zs)"

definition rootAttr :: "string \<Rightarrow> xnode list option \<Rightarrow> (string \<times> string) list" where
  "rootAttr key v = (case v of None \<Rightarrow> [] | Some arr \<Rightarrow> [(key, joinComma (map nodeToString arr))])"

text \<open>\<^verbatim>\<open>serialize\<close> (lines 17-29), up to the printing of the document as text.\<close>

definition serialize :: "JMeterTestPlan \<Rightarrow> error + xml" where
  "serialize plan =
     (case serializeTestPlan (testPlan plan) of
        Inl err \<Rightarrow> Inl err
      | Inr nodes \<Rightarrow>
          Inr (Elem ''jmeterTestPlan''
                 (rootAttr ''version'' (version plan) @ rootAttr ''properties'' (properties plan)
                  @ rootAttr ''jmeter'' (jmeter plan))
                 [Elem ''hashTree'' [] nodes []] []))"

text \<open>Parse, serialize, parse again: the second parse draws its identifiers from \<open>s'\<close>.\<close>

definition reparse :: "xml \<Rightarrow> ids \<Rightarrow> ids \<Rightarrow> error + JMeterTestPlan" where
  "reparse doc s s' =
     (case parse doc s of
        Inl err \<Rightarrow> Inl err
      | Inr plan \<Rightarrow> (case serialize plan of Inl err \<Rightarrow> Inl err | Inr out \<Rightarrow> parse out s'))"

text \<open>Trees up to identity: every \<^verbatim>\<open>id\<close> replaced by the empty string.\<close>

fun eraseIds :: "element \<Rightarrow> element" where
  "eraseIds (Element i ty tc gc nm en cm cs k) = Element [] ty tc gc nm en cm (map eraseIds cs) k"

definition eraseIdsPlan :: "JMeterTestPlan \<Rightarrow> JMeterTestPlan" where
  "eraseIdsPlan plan =
     plan\<lparr> testPlan := (testPlan plan)\<lparr> tp_id := [], tp_children := map eraseIds (tp_children (testPlan plan)) \<rparr> \<rparr>"


section \<open>Notions used in the statements\<close>

text \<open>
  What \<^verbatim>\<open>parseHashTree\<close> enumerates in an object with fields \<open>fs\<close>: the keys other than
  \<^verbatim>\<open>hashTree\<close> (line 70), the element tags under them in the order of the two loops, and the
  container tags (line 71).
\<close>

definition elementKeys :: "(string \<times> xnode list) list \<Rightarrow> string list" where
  "elementKeys fs = filter (\<lambda>k. k \<noteq> ''hashTree'') (map fst fs)"

definition entriesOf :: "xnode \<Rightarrow> string list \<Rightarrow> xnode list" where
  "entriesOf h ks = concat (map (\<lambda>k. case field h k of None \<Rightarrow> [] | Some arr \<Rightarrow> arr) ks)"

definition elementTags :: "(string \<times> xnode list) list \<Rightarrow> xnode list" where
  "elementTags fs = concat (map (\<lambda>k. case map_of fs k of None \<Rightarrow> [] | Some arr \<Rightarrow> arr) (elementKeys fs))"

definition containerTags :: "(string \<times> xnode list) list \<Rightarrow> xnode list" where
  "containerTags fs = (case map_of fs ''hashTree'' of None \<Rightarrow> [] | Some hts \<Rightarrow> hts)"




text \<open>A list of containers cut to \<open>n\<close> entries, or filled up to \<open>n\<close> entries with empty
  containers (the node of \<^verbatim>\<open><hashTree/>\<close> is the empty string).\<close>

definition fitContainers :: "nat \<Rightarrow> xnode list \<Rightarrow> xnode list" where
  "fitContainers n hts = take n hts @ replicate (n - length hts) (XStr [])"

text \<open>The same object with another array of containers.\<close>

definition withContainers :: "(string \<times> xnode list) list \<Rightarrow> xnode list \<Rightarrow> (string \<times> xnode list) list" where
  "withContainers fs hts = filter (\<lambda>kv. fst kv \<noteq> ''hashTree'') fs @ [(''hashTree'', hts)]"

text \<open>The element tags \<^verbatim>\<open>parseElement\<close> decodes: those whose \<^verbatim>\<open>testclass\<close> is one of the
  \<^verbatim>\<open>case\<close> labels of lines 98-134.\<close>

definition decodes :: "xnode \<Rightarrow> bool" where
  "decodes xml =
     (case testClassOf xml of
        None \<Rightarrow> False
      | Some cls \<Rightarrow> cls \<in> set [''ThreadGroup'', ''SetupThreadGroup'', ''PostThreadGroup'',
          ''HTTPSamplerProxy'', ''RegexExtractor'', ''ResponseAssertion'', ''HeaderManager'',
          ''Arguments'', ''JSR223Sampler'', ''JSR223PostProcessor'', ''BeanShellAssertion'',
          ''ResultCollector'', ''TestAction'', ''ConstantThroughputTimer''])"


text \<open>What the parser reads as the \<^verbatim>\<open>enabled\<close> attribute of an element of a document: with
  attributes merged into the node, the attribute when the element has one, and otherwise the
  node of its first child element tagged \<^verbatim>\<open>enabled\<close>.\<close>

definition enabledEntry :: "xml \<Rightarrow> xnode option" where
  "enabledEntry d =
     (case map_of (attrsOf d) ''enabled'' of
        Some v \<Rightarrow> Some (XStr v)
      | None \<Rightarrow> map_of (map (\<lambda>kid. (tagOf kid, xml2js kid)) (kidsOf d)) ''enabled'')"

text \<open>A thread group node without an explicit loop count: it has no \<^verbatim>\<open>elementProp\<close> of element
  type \<^verbatim>\<open>LoopController\<close>, or that one has neither an \<^verbatim>\<open>intProp\<close> nor a \<^verbatim>\<open>stringProp\<close> named
  \<^verbatim>\<open>LoopController.loops\<close>.\<close>

definition lacksLoopCount :: "xnode \<Rightarrow> bool" where
  "lacksLoopCount xml =
     (case findProp xml ''elementProp'' ''elementType'' ''LoopController'' of
        None \<Rightarrow> True
      | Some p \<Rightarrow> findProp p ''intProp'' ''name'' ''LoopController.loops'' = None
                \<and> findProp p ''stringProp'' ''name'' ''LoopController.loops'' = None)"

text \<open>Observations on results: the top-level elements of a parsed plan, its serialization, the
  elements of a document that carry a given \<^verbatim>\<open>name\<close> attribute, and the names of a sequence of
  elements with the names of their children.\<close>

definition childrenOf :: "error + JMeterTestPlan \<Rightarrow> element list" where
  "childrenOf r = (case r of Inl err \<Rightarrow> [] | Inr plan \<Rightarrow> tp_children (testPlan plan))"

definition serialized :: "error + JMeterTestPlan \<Rightarrow> error + xml" where
  "serialized r = (case r of Inl err \<Rightarrow> Inl err | Inr plan \<Rightarrow> serialize plan)"

fun named :: "string \<Rightarrow> xml \<Rightarrow> xml list" where
  "named nm (Elem t as ks cd) =
     (if map_of as ''name'' = Some nm then [Elem t as ks cd] else []) @ concat (map (named nm) ks)"

definition namedIn :: "string \<Rightarrow> error + xml \<Rightarrow> xml list" where
  "namedIn nm r = (case r of Inl err \<Rightarrow> [] | Inr doc \<Rightarrow> named nm doc)"

definition shape :: "element list \<Rightarrow> (string \<times> string list) list" where
  "shape es = map (\<lambda>e. (name e, map name (children e))) es"

section \<open>Sample inputs\<close>

text \<open>A sequence of identifiers for the concrete runs below.\<close>

definition sampleIds :: ids where
  "sampleIds n = ''id'' @ replicate n CHR ''x''"

text \<open>The elements reconstructed from a container of a document.\<close>

definition reconstruct :: "xml \<Rightarrow> element list" where
  "reconstruct container = fst (parseHashTree (Some (xml2js container)) sampleIds)"

text \<open>Thread group elements: with the attribute \<^verbatim>\<open>enabled="false"\<close>, with \<^verbatim>\<open>enabled="FALSE"\<close>,
  and with no \<^verbatim>\<open>enabled\<close> attribute but a child element \<^verbatim>\<open><enabled>false</enabled>\<close>.\<close>

definition disabledDoc :: xml where
  "disabledDoc = Elem ''ThreadGroup'' [(''testclass'', ''ThreadGroup''), (''enabled'', ''false'')] [] []"

definition upperFalseDoc :: xml where
  "upperFalseDoc = Elem ''ThreadGroup'' [(''testclass'', ''ThreadGroup''), (''enabled'', ''FALSE'')] [] []"

definition childFalseDoc :: xml where
  "childFalseDoc =
     Elem ''ThreadGroup'' [(''testclass'', ''ThreadGroup'')] [Elem ''enabled'' [] [] ''false''] []"

text \<open>A node with \<^verbatim>\<open><stringProp name="ThreadGroup.delay">0</stringProp>\<close>, and one with
  \<^verbatim>\<open><intProp name="ThreadGroup.delay">abc</intProp>\<close>.\<close>

definition zeroDelayNode :: xnode where
  "zeroDelayNode = XObj None
     [(''stringProp'', [XObj (Some ''0'') [(''name'', [XStr ''ThreadGroup.delay''])]])]"

definition badIntNode :: xnode where
  "badIntNode = XObj None
     [(''intProp'', [XObj (Some ''abc'') [(''name'', [XStr ''ThreadGroup.delay''])]])]"

text \<open>A thread group node whose loop controller block has no loop count and says
  \<^verbatim>\<open>continue_forever = true\<close>.\<close>

definition foreverNode :: xnode where
  "foreverNode = XObj None
     [(''testclass'', [XStr ''ThreadGroup'']),
      (''elementProp'',
        [XObj None
           [(''name'', [XStr ''ThreadGroup.main_controller'']),
            (''elementType'', [XStr ''LoopController'']),
            (''boolProp'', [XObj (Some ''true'') [(''name'', [XStr ''LoopController.continue_forever''])]])]])]"

text \<open>A file: the root, its container, the plan and the plan's container holding \<open>body\<close>.\<close>

definition planDoc :: "xml list \<Rightarrow> xml" where
  "planDoc body =
     Elem ''jmeterTestPlan'' [(''version'', ''1.2''), (''properties'', ''5.0''), (''jmeter'', ''5.6.3'')]
       [Elem ''hashTree'' []
          [Elem ''TestPlan'' [(''guiclass'', ''TestPlanGui''), (''testclass'', ''TestPlan''), (''testname'', ''Plan'')] [] [],
           Elem ''hashTree'' [] body []] []] []"

text \<open>A plan with one thread group whose loop count is \<^verbatim>\<open>${LOOP_COUNT}\<close>.\<close>

definition loopCountDoc :: xml where
  "loopCountDoc = planDoc
     [Elem ''ThreadGroup''
        [(''guiclass'', ''ThreadGroupGui''), (''testclass'', ''ThreadGroup''), (''testname'', ''TG''),
         (''enabled'', ''true'')]
        [Elem ''elementProp'' [(''name'', ''ThreadGroup.main_controller''), (''elementType'', ''LoopController'')]
           [Elem ''stringProp'' [(''name'', ''LoopController.loops'')] [] ''${LOOP_COUNT}'',
            Elem ''boolProp'' [(''name'', ''LoopController.continue_forever'')] [] ''false''] []] [],
      Elem ''hashTree'' [] [] []]"

text \<open>A plan with one result collector that logs errors only.\<close>

definition errorLoggingDoc :: xml where
  "errorLoggingDoc = planDoc
     [Elem ''ResultCollector''
        [(''guiclass'', ''ViewResultsFullVisualizer''), (''testclass'', ''ResultCollector''),
         (''testname'', ''Errors''), (''enabled'', ''true'')]
        [Elem ''boolProp'' [(''name'', ''ResultCollector.error_logging'')] [] ''true''] [],
      Elem ''hashTree'' [] [] []]"

text \<open>Element tags named \<open>nm\<close> of test class \<open>cls\<close> (the tag is the test class, as JMeter
  writes it), and a container holding one \<^verbatim>\<open>Arguments\<close> element named \<open>nm\<close>.\<close>

definition tagDoc :: "string \<Rightarrow> string \<Rightarrow> xml" where
  "tagDoc cls nm = Elem cls [(''testclass'', cls), (''testname'', nm)] [] []"

definition containerWith :: "string \<Rightarrow> xml" where
  "containerWith nm = Elem ''hashTree'' [] [tagDoc ''Arguments'' nm, Elem ''hashTree'' [] [] []] []"

text \<open>Three known elements of interleaved kinds, each followed by its container.\<close>

definition interleavedDoc :: xml where
  "interleavedDoc = Elem ''hashTree'' []
     [tagDoc ''ThreadGroup'' ''A'', containerWith ''in-ca'',
      tagDoc ''HTTPSamplerProxy'' ''B'', containerWith ''in-cb'',
      tagDoc ''ThreadGroup'' ''C'', containerWith ''in-cc''] []"

text \<open>A known element, an element whose test class has no \<^verbatim>\<open>case\<close> in \<^verbatim>\<open>parseElement\<close>
  (\<^verbatim>\<open>IfController\<close>), a known element; in the second document the three tags are pairwise
  different.\<close>

definition unknownMiddleDoc :: xml where
  "unknownMiddleDoc = Elem ''hashTree'' []
     [tagDoc ''ThreadGroup'' ''A'', containerWith ''in-ca'',
      tagDoc ''IfController'' ''X'', containerWith ''in-cx'',
      tagDoc ''ThreadGroup'' ''B'', containerWith ''in-cb''] []"

definition unknownMiddleDistinctDoc :: xml where
  "unknownMiddleDistinctDoc = Elem ''hashTree'' []
     [tagDoc ''ThreadGroup'' ''A'', containerWith ''in-ca'',
      tagDoc ''IfController'' ''X'', containerWith ''in-cx'',
      tagDoc ''HTTPSamplerProxy'' ''B'', containerWith ''in-cb''] []"


text \<open>Trees as the editor builds them: a plan, an element of kind \<^verbatim>\<open>JSONExtractor\<close> (a member of
  \<^verbatim>\<open>ElementType\<close> that the editor offers), a timer and a test action.\<close>

definition samplePlan :: "element list \<Rightarrow> JMeterTestPlan" where
  "samplePlan cs =
     \<lparr> version = Some [XStr ''1.2''], properties = Some [XStr ''5.0''], jmeter = Some [XStr ''5.6.3''],
       testPlan = \<lparr> tp_id = ''id-0'', tp_type = ''TestPlan'', tp_testClass = ''TestPlan'',
                    tp_guiClass = ''TestPlanGui'', tp_name = ''Plan'', tp_enabled = True,
                    functionalMode = False, serializeThreadGroups = False,
                    userDefinedVariables = [], tp_children = cs \<rparr> \<rparr>"

definition jsonExtractor :: element where
  "jsonExtractor = Element ''id-1'' ''JSONExtractor'' ''JSONExtractor'' ''JSONPostProcessorGui''
     ''JSON Extractor'' True None [] BaseFields"

definition timerElement :: "string \<Rightarrow> string \<Rightarrow> element" where
  "timerElement i nm =
     Element i ''ConstantThroughputTimer'' ''ConstantThroughputTimer'' ''TestBeanGUI'' nm True None [] BaseFields"

definition actionElement :: "string \<Rightarrow> string \<Rightarrow> element list \<Rightarrow> element" where
  "actionElement i nm cs =
     Element i ''TestAction'' ''TestAction'' ''TestActionGui'' nm True None cs BaseFields"

definition droppedKindPlan :: JMeterTestPlan where
  "droppedKindPlan = samplePlan [jsonExtractor, actionElement ''id-2'' ''Pause'' [timerElement ''id-3'' ''T'']]"

section \<open>Properties\<close>

subsection \<open>Unfolding for concrete runs\<close>

declare parseThreadGroup.simps [simp del] parseHTTPSampler.simps [simp del]
  parseTestAction.simps [simp del] parseElement.simps [simp del]

lemmas accessor_eval = findProp_def hasAttr_def getStringValueChars_def parseStringProp_def parseIntProp_def
  parseBoolProp_def parseIntOrStringProp_def parseCollectionProp_def findStringProp_def findBoolProp_def
  orString_def orNumber_def orNumOrStr_def attrOr_def enabledOf_def testClassOf_def nthOpt_def
  parseInt_def isWhiteSpace_def isDigit_def digitVal_def

lemmas parser_eval = parseElement.simps parseThreadGroup.simps parseHTTPSampler.simps parseTestAction.simps
  parseRegexExtractor_def parseResponseAssertion_def parseHeaderManager_def parseBase_def parseArguments_def
  parseJSR223Sampler_def parseJSR223PostProcessor_def parseConstantThroughputTimer_def
  parseBeanShellAssertion_def parseResultCollector_def threadGroupFields_def httpSamplerFields_def
  parseLoopController_def argumentElems_def parseUserDefinedVariables_def parseBodyData_def
  parseHTTPArguments_def parseHeaders_def parseTestPlan_def parse_def generateId_def setChildren_def

lemmas serializer_eval = serialize_def serializeTestPlan_def serializeElement_def serializeThreadGroup_def
  serializeHTTPSampler_def serializeRegexExtractor_def serializeResponseAssertion_def
  serializeHeaderManager_def serializeBeanShellAssertion_def serializeArguments_def
  serializeJSR223Element_def serializeResultCollector_def serializeTestAction_def
  serializeConstantThroughputTimer_def propElem_def addProp_def baseAttrs_def optStringProp_def
  optIntProp_def optAddProp_def rootAttr_def boolToString_def numberToString_def

lemmas sample_eval = planDoc_def tagDoc_def containerWith_def shape_def reconstruct_def childrenOf_def
  serialized_def namedIn_def reparse_def samplePlan_def jsonExtractor_def timerElement_def
  actionElement_def

subsection \<open>Basic facts about the parse functions\<close>

lemma enabled_setChildren [simp]: "enabled (setChildren e cs) = enabled e"
  by (cases e) (simp add: setChildren_def)

lemma kind_setChildren [simp]: "kind (setChildren e cs) = kind e"
  by (cases e) (simp add: setChildren_def)

lemma children_setChildren [simp]: "children (setChildren e cs) = cs"
  by (cases e) (simp add: setChildren_def)

lemma enabled_parseBase: "enabled (fst (parseBase ty g n xml s)) = enabledOf xml"
  by (simp add: parseBase_def generateId_def)

lemma enabled_parseThreadGroup: "enabled (fst (parseThreadGroup xml ch ty s)) = enabledOf xml"
  by (simp add: parseThreadGroup.simps generateId_def Let_def split: prod.splits)

lemma enabled_parseHTTPSampler: "enabled (fst (parseHTTPSampler xml ch s)) = enabledOf xml"
  by (simp add: parseHTTPSampler.simps generateId_def Let_def split: prod.splits)

lemma enabled_parseTestAction: "enabled (fst (parseTestAction xml ch s)) = enabledOf xml"
  by (simp add: parseTestAction.simps generateId_def Let_def split: prod.splits)

lemma enabled_leaves:
  "enabled (fst (parseRegexExtractor xml s)) = enabledOf xml"
  "enabled (fst (parseResponseAssertion xml s)) = enabledOf xml"
  "enabled (fst (parseHeaderManager xml s)) = enabledOf xml"
  "enabled (fst (parseBeanShellAssertion xml s)) = enabledOf xml"
  "enabled (fst (parseResultCollector xml s)) = enabledOf xml"
  "enabled (fst (parseArguments xml s)) = enabledOf xml"
  "enabled (fst (parseJSR223Sampler xml ch s)) = enabledOf xml"
  "enabled (fst (parseJSR223PostProcessor xml s)) = enabledOf xml"
  "enabled (fst (parseConstantThroughputTimer xml s)) = enabledOf xml"
  by (simp_all add: parseRegexExtractor_def parseResponseAssertion_def parseHeaderManager_def
      parseBeanShellAssertion_def parseResultCollector_def parseArguments_def parseJSR223Sampler_def
      parseJSR223PostProcessor_def parseConstantThroughputTimer_def enabled_parseBase generateId_def Let_def)

lemma parseElement_enabled:
  "parseElement tagName xml childHashTree s = Some r \<Longrightarrow> enabled (fst r) = enabledOf xml"
  unfolding parseElement.simps
  by (auto simp: enabled_leaves enabled_parseThreadGroup enabled_parseHTTPSampler
        enabled_parseTestAction split: option.splits if_splits)

lemma kind_parseThreadGroup: "kind (fst (parseThreadGroup xml ch ty s)) = threadGroupFields xml"
  by (simp add: parseThreadGroup.simps generateId_def Let_def split: prod.splits)

text \<open>An absent container and an empty one are read alike.\<close>

lemma parseElement_falsy:
  "\<not> truthyNode ch \<Longrightarrow> parseElement t x ch s = parseElement t x None s"
  by (simp add: parseElement.simps parseThreadGroup.simps parseHTTPSampler.simps parseTestAction.simps
      parseJSR223Sampler_def generateId_def Let_def cong: if_cong option.case_cong)

lemma parseElement_sameChild:
  assumes "a = b \<or> (\<not> truthyNode a \<and> \<not> truthyNode b)"
  shows "parseElement t x a s = parseElement t x b s"
  using assms parseElement_falsy[of a t x s] parseElement_falsy[of b t x s] by auto

lemma parseElement_None_iff: "(parseElement t x ch s = None) = (\<not> decodes x)"
  by (auto simp: parseElement.simps decodes_def split: option.splits)

subsection \<open>Attributes in the node tree\<close>

text \<open>The first entry under a key of the node built for an element is the element's attribute
  of that name when it has one, and otherwise its first child element with that tag.\<close>

lemma map_of_assignOrPush:
  "map_of (assignOrPush obj k v) k' =
     (if k' = k then Some ((case map_of obj k of None \<Rightarrow> [] | Some arr \<Rightarrow> arr) @ [v]) else map_of obj k')"
  by (induction obj k v rule: assignOrPush.induct) auto

lemma first_assignOrPush:
  "getStringValue (map_of (assignOrPush obj k v) k') =
     (if k' = k then (case getStringValue (map_of obj k) of None \<Rightarrow> Some v | Some x \<Rightarrow> Some x)
      else getStringValue (map_of obj k'))"
proof (cases "k' = k")
  case False
  then show ?thesis by (simp add: map_of_assignOrPush)
next
  case True
  show ?thesis
  proof (cases "map_of obj k")
    case None
    with True show ?thesis by (simp add: map_of_assignOrPush)
  next
    case (Some arr)
    with True show ?thesis by (cases arr) (simp_all add: map_of_assignOrPush)
  qed
qed

lemma first_foldl_assignOrPush:
  "getStringValue (map_of (foldl (\<lambda>obj kv. assignOrPush obj (fst kv) (snd kv)) obj kvs) k) =
     (case getStringValue (map_of obj k) of None \<Rightarrow> map_of kvs k | Some x \<Rightarrow> Some x)"
proof (induction kvs arbitrary: obj)
  case Nil
  show ?case by (simp split: option.splits)
next
  case (Cons kv kvs)
  show ?case
    by (cases kv) (auto simp: Cons.IH first_assignOrPush split: option.splits)
qed

lemma first_entry_xml2js:
  "getStringValue (field (xml2js (Elem t as ks cd)) k) =
     (case map_of as k of
        Some v \<Rightarrow> Some (XStr v)
      | None \<Rightarrow> map_of (map (\<lambda>kid. (tagOf kid, xml2js kid)) ks) k)"
proof -
  let ?kvs = "map (\<lambda>a. (fst a, XStr (snd a))) as @ map (\<lambda>kid. (tagOf kid, xml2js kid)) ks"
  let ?obj = "foldl (\<lambda>obj kv. assignOrPush obj (fst kv) (snd kv)) [] ?kvs"
  have attrs: "map_of (map (\<lambda>a. (fst a, XStr (snd a))) as) k = map_option XStr (map_of as k)"
    by (induction as) auto
  have "getStringValue (map_of ?obj k) = map_of ?kvs k"
    using first_foldl_assignOrPush[of "[]" ?kvs k] by simp
  also have "\<dots> = (case map_of as k of Some v \<Rightarrow> Some (XStr v)
                     | None \<Rightarrow> map_of (map (\<lambda>kid. (tagOf kid, xml2js kid)) ks) k)"
    by (simp add: map_add_def attrs split: option.splits)
  finally have main: "getStringValue (map_of ?obj k) = (case map_of as k of Some v \<Rightarrow> Some (XStr v)
                     | None \<Rightarrow> map_of (map (\<lambda>kid. (tagOf kid, xml2js kid)) ks) k)" .
  show ?thesis
  proof (cases "?obj = []")
    case True
    with main show ?thesis by (simp add: Let_def)
  next
    case False
    with main show ?thesis by (simp add: Let_def)
  qed
qed

lemma map_of_kids_None:
  "k \<notin> tagOf ` set ks \<Longrightarrow> map_of (map (\<lambda>kid. (tagOf kid, xml2js kid)) ks) k = None"
  by (induction ks) auto

text \<open>The enabled flag in terms of the document: for an element without a child tag named
  \<^verbatim>\<open>enabled\<close>, the flag is false exactly when the attribute \<^verbatim>\<open>enabled\<close> is the text \<^verbatim>\<open>false\<close>.\<close>

lemma enabled_attribute_of_document:
  assumes "parseElement tagName (xml2js (Elem t as ks cd)) childHashTree s = Some (e, s')"
    and "''enabled'' \<notin> tagOf ` set ks"
  shows "enabled e = (map_of as ''enabled'' \<noteq> Some ''false'')"
proof -
  have "enabled e = enabledOf (xml2js (Elem t as ks cd))"
    using parseElement_enabled[OF assms(1)] by simp
  also have "\<dots> = (map_of as ''enabled'' \<noteq> Some ''false'')"
    unfolding enabledOf_def first_entry_xml2js
    by (simp add: map_of_kids_None[OF assms(2)] split: option.splits)
  finally show ?thesis .
qed

subsection \<open>The two loops of \<^verbatim>\<open>parseHashTree\<close>\<close>

text \<open>An element tag that is not decoded is skipped together with the container at its index:
  the loop goes on with the next index.\<close>

lemma dropped_tag_skips_its_container:
  "\<not> decodes x \<Longrightarrow> parseArray key (x # xs) hts i s = parseArray key xs hts (Suc i) s"
  using parseElement_None_iff[of key x "nthOpt hts i" s] by (simp add: Let_def)

lemma parseArray_cong:
  assumes "\<And>j. i \<le> j \<Longrightarrow> j < i + length arr \<Longrightarrow>
             nthOpt hts j = nthOpt hts' j \<or> (\<not> truthyNode (nthOpt hts j) \<and> \<not> truthyNode (nthOpt hts' j))"
  shows "parseArray key arr hts i s = parseArray key arr hts' i s"
  using assms
proof (induction arr arbitrary: i s)
  case Nil
  show ?case by simp
next
  case (Cons x xs)
  have here: "parseElement key x (nthOpt hts i) s = parseElement key x (nthOpt hts' i) s"
    by (rule parseElement_sameChild) (rule Cons.prems, simp_all)
  have rest: "parseArray key xs hts (Suc i) s' = parseArray key xs hts' (Suc i) s'" for s'
    by (rule Cons.IH) (rule Cons.prems, simp_all)
  show ?case
  proof (cases "parseElement key x (nthOpt hts' i) s")
    case None
    with here rest show ?thesis by (simp add: Let_def)
  next
    case (Some r)
    with here rest show ?thesis by (cases r) (simp add: Let_def)
  qed
qed

lemma parseArray_index:
  "parseArray key arr hts i s = (es, i', s') \<Longrightarrow> i' = i + length arr"
proof (induction arr arbitrary: i s es i' s')
  case Nil
  then show ?case by simp
next
  case (Cons x xs)
  show ?case
  proof (cases "parseElement key x (nthOpt hts i) s")
    case None
    with Cons.prems have "parseArray key xs hts (Suc i) s = (es, i', s')" by (simp add: Let_def)
    from Cons.IH[OF this] show ?thesis by simp
  next
    case (Some r)
    obtain e s1 where r: "r = (e, s1)" by (cases r)
    obtain es2 i2 s2 where rec: "parseArray key xs hts (Suc i) s1 = (es2, i2, s2)"
      by (cases "parseArray key xs hts (Suc i) s1") auto
    from Cons.prems Some r rec have "i' = i2" by (simp add: Let_def)
    with Cons.IH[OF rec] show ?thesis by simp
  qed
qed

lemma parseArray_length:
  "parseArray key arr hts i s = (es, i', s') \<Longrightarrow> length es = length (filter decodes arr)"
proof (induction arr arbitrary: i s es i' s')
  case Nil
  then show ?case by simp
next
  case (Cons x xs)
  show ?case
  proof (cases "parseElement key x (nthOpt hts i) s")
    case None
    then have nd: "\<not> decodes x" by (simp add: parseElement_None_iff)
    from None Cons.prems have "parseArray key xs hts (Suc i) s = (es, i', s')" by (simp add: Let_def)
    from Cons.IH[OF this] nd show ?thesis by simp
  next
    case (Some r)
    then have d: "decodes x" using parseElement_None_iff[of key x "nthOpt hts i" s] by simp
    obtain e s1 where r: "r = (e, s1)" by (cases r)
    obtain es2 i2 s2 where rec: "parseArray key xs hts (Suc i) s1 = (es2, i2, s2)"
      by (cases "parseArray key xs hts (Suc i) s1") auto
    from Cons.prems Some r rec have "es = e # es2" by (simp add: Let_def)
    with Cons.IH[OF rec] d show ?thesis by simp
  qed
qed

lemma entriesOf_Cons:
  "entriesOf h (k # ks) = (case field h k of None \<Rightarrow> [] | Some arr \<Rightarrow> arr) @ entriesOf h ks"
  by (simp add: entriesOf_def)

lemma parseKeys_index:
  "parseKeys h hts ks i s = (es, i', s') \<Longrightarrow> i' = i + length (entriesOf h ks)"
proof (induction ks arbitrary: i s es i' s')
  case Nil
  then show ?case by (simp add: entriesOf_def)
next
  case (Cons k ks)
  show ?case
  proof (cases "field h k")
    case None
    with Cons.prems have "parseKeys h hts ks i s = (es, i', s')" by simp
    from Cons.IH[OF this] None show ?thesis by (simp add: entriesOf_Cons)
  next
    case (Some arr)
    obtain es1 i1 s1 where pa: "parseArray k arr hts i s = (es1, i1, s1)"
      by (cases "parseArray k arr hts i s") auto
    obtain es2 i2 s2 where pk: "parseKeys h hts ks i1 s1 = (es2, i2, s2)"
      by (cases "parseKeys h hts ks i1 s1") auto
    from Cons.prems Some pa pk have "i' = i2" by simp
    with Cons.IH[OF pk] parseArray_index[OF pa] Some show ?thesis by (simp add: entriesOf_Cons)
  qed
qed

lemma parseKeys_length:
  "parseKeys h hts ks i s = (es, i', s') \<Longrightarrow> length es = length (filter decodes (entriesOf h ks))"
proof (induction ks arbitrary: i s es i' s')
  case Nil
  then show ?case by (simp add: entriesOf_def)
next
  case (Cons k ks)
  show ?case
  proof (cases "field h k")
    case None
    with Cons.prems have "parseKeys h hts ks i s = (es, i', s')" by simp
    from Cons.IH[OF this] None show ?thesis by (simp add: entriesOf_Cons)
  next
    case (Some arr)
    obtain es1 i1 s1 where pa: "parseArray k arr hts i s = (es1, i1, s1)"
      by (cases "parseArray k arr hts i s") auto
    obtain es2 i2 s2 where pk: "parseKeys h hts ks i1 s1 = (es2, i2, s2)"
      by (cases "parseKeys h hts ks i1 s1") auto
    from Cons.prems Some pa pk have "es = es1 @ es2" by simp
    with Cons.IH[OF pk] parseArray_length[OF pa] Some show ?thesis by (simp add: entriesOf_Cons)
  qed
qed

lemma parseKeys_cong_containers:
  assumes "\<And>j. i \<le> j \<Longrightarrow> j < i + length (entriesOf h ks) \<Longrightarrow>
             nthOpt hts j = nthOpt hts' j \<or> (\<not> truthyNode (nthOpt hts j) \<and> \<not> truthyNode (nthOpt hts' j))"
  shows "parseKeys h hts ks i s = parseKeys h hts' ks i s"
  using assms
proof (induction ks arbitrary: i s)
  case Nil
  show ?case by simp
next
  case (Cons k ks)
  show ?case
  proof (cases "field h k")
    case None
    have "parseKeys h hts ks i s = parseKeys h hts' ks i s"
      by (rule Cons.IH) (rule Cons.prems, simp_all add: entriesOf_Cons None)
    with None show ?thesis by simp
  next
    case (Some arr)
    have a: "parseArray k arr hts i s = parseArray k arr hts' i s"
      by (rule parseArray_cong) (rule Cons.prems, simp_all add: entriesOf_Cons Some)
    obtain es1 i1 s1 where pa: "parseArray k arr hts' i s = (es1, i1, s1)"
      by (cases "parseArray k arr hts' i s") auto
    have i1: "i1 = i + length arr" by (rule parseArray_index[OF pa])
    have b: "parseKeys h hts ks i1 s1 = parseKeys h hts' ks i1 s1"
      by (rule Cons.IH) (rule Cons.prems, simp_all add: entriesOf_Cons Some i1)
    from Some a pa b show ?thesis by simp
  qed
qed

lemma parseKeys_cong_object:
  assumes "\<And>k. k \<in> set ks \<Longrightarrow> field h k = field h' k"
  shows "parseKeys h hts ks i s = parseKeys h' hts ks i s"
  using assms
  by (induction ks arbitrary: i s) (auto split: option.splits prod.splits)

lemma map_of_filter_other:
  "k \<noteq> h \<Longrightarrow> map_of (filter (\<lambda>kv. fst kv \<noteq> h) fs) k = map_of fs k"
  by (induction fs) auto

lemma map_of_filter_self: "map_of (filter (\<lambda>kv. fst kv \<noteq> h) fs) h = None"
  by (induction fs) auto

lemma field_withContainers:
  "k \<noteq> ''hashTree'' \<Longrightarrow> map_of (withContainers fs hts) k = map_of fs k"
  by (simp add: withContainers_def map_add_def map_of_filter_other split: option.splits)

lemma containers_withContainers: "map_of (withContainers fs hts) ''hashTree'' = Some hts"
  by (simp add: withContainers_def map_add_def map_of_filter_self)

lemma keys_withContainers: "elementKeys (withContainers fs hts) = elementKeys fs"
  by (induction fs) (auto simp: withContainers_def elementKeys_def)

lemma length_fitContainers: "length (fitContainers n hts) = n"
  by (simp add: fitContainers_def)

lemma nthOpt_fit:
  assumes "j < n"
  shows "nthOpt hts j = nthOpt (fitContainers n hts) j
      \<or> (\<not> truthyNode (nthOpt hts j) \<and> \<not> truthyNode (nthOpt (fitContainers n hts) j))"
proof (cases "j < length hts")
  case True
  with assms have "fitContainers n hts ! j = hts ! j"
    by (simp add: fitContainers_def nth_append)
  with True assms show ?thesis by (simp add: nthOpt_def length_fitContainers)
next
  case False
  with assms have "fitContainers n hts ! j = XStr []"
    by (simp add: fitContainers_def nth_append)
  with False assms show ?thesis by (simp add: nthOpt_def length_fitContainers)
qed

lemma entriesOf_elementTags: "entriesOf (XObj c fs) (elementKeys fs) = elementTags fs"
  by (simp add: entriesOf_def elementTags_def)











text \<open>A node of a known kind is always decoded, with the enabled flag read from its entry.\<close>

lemma parseElement_decodes_enabled:
  assumes "decodes xml"
  shows "\<exists>e s'. parseElement tagName xml ch s = Some (e, s') \<and> enabled e = enabledOf xml"
proof -
  from assms have "parseElement tagName xml ch s \<noteq> None"
    by (simp add: parseElement_None_iff)
  then obtain e s' where r: "parseElement tagName xml ch s = Some (e, s')" by auto
  from parseElement_enabled[OF r] r show ?thesis by simp
qed

lemma enabledEntry_xml2js: "getStringValue (field (xml2js d) ''enabled'') = enabledEntry d"
  by (cases d) (simp only: first_entry_xml2js enabledEntry_def xml.sel)

subsection \<open>Identifiers and the serializer\<close>

lemma eraseIds_fields [simp]:
  "etype (eraseIds e) = etype e" "testClass (eraseIds e) = testClass e" "guiClass (eraseIds e) = guiClass e"
  "name (eraseIds e) = name e" "enabled (eraseIds e) = enabled e" "comments (eraseIds e) = comments e"
  "kind (eraseIds e) = kind e" "children (eraseIds e) = map eraseIds (children e)"
  by (cases e; simp)+

lemma baseAttrs_eraseIds [simp]: "baseAttrs (eraseIds e) = baseAttrs e"
  by (simp add: baseAttrs_def)

lemma serialize_kinds_eraseIds:
  "serializeThreadGroup (eraseIds e) = serializeThreadGroup e"
  "serializeHTTPSampler (eraseIds e) = serializeHTTPSampler e"
  "serializeRegexExtractor (eraseIds e) = serializeRegexExtractor e"
  "serializeResponseAssertion (eraseIds e) = serializeResponseAssertion e"
  "serializeHeaderManager (eraseIds e) = serializeHeaderManager e"
  "serializeBeanShellAssertion (eraseIds e) = serializeBeanShellAssertion e"
  "serializeArguments (eraseIds e) = serializeArguments e"
  "serializeJSR223Element (eraseIds e) = serializeJSR223Element e"
  "serializeResultCollector (eraseIds e) = serializeResultCollector e"
  "serializeTestAction (eraseIds e) = serializeTestAction e"
  "serializeConstantThroughputTimer (eraseIds e) = serializeConstantThroughputTimer e"
  by (simp_all add: serializeThreadGroup_def serializeHTTPSampler_def
      serializeRegexExtractor_def serializeResponseAssertion_def serializeHeaderManager_def
      serializeBeanShellAssertion_def serializeArguments_def serializeJSR223Element_def
      serializeResultCollector_def serializeTestAction_def serializeConstantThroughputTimer_def
      cong: kindFields.case_cong)

lemma serializeElement_eraseIds: "serializeElement (eraseIds e) = serializeElement e"
  by (simp add: serializeElement_def serialize_kinds_eraseIds Let_def cong: if_cong)

lemma serializeChildren_eraseIds: "serializeChildren (map eraseIds cs) = serializeChildren cs"
proof (induction cs rule: serializeChildren.induct)
  case 1
  show ?case by simp
next
  case (2 i ty tc gc nm en cm cs k rest)
  let ?e = "Element i ty tc gc nm en cm cs k"
  have own: "serializeElement (Element [] ty tc gc nm en cm (map eraseIds cs) k) = serializeElement ?e"
    using serializeElement_eraseIds[of ?e] by simp
  show ?case
  proof (cases "serializeElement ?e")
    case (Inl err)
    with own show ?thesis by simp
  next
    case ownOk: (Inr b)
    have sub: "(if map eraseIds cs \<noteq> [] then serializeChildren (map eraseIds cs) else Inr [])
             = (if cs \<noteq> [] then serializeChildren cs else Inr [])"
      using "2.IH"(1)[OF ownOk] by (cases "cs = []") simp_all
    show ?thesis
    proof (cases "if cs \<noteq> [] then serializeChildren cs else Inr []")
      case (Inl err)
      with own ownOk sub show ?thesis by simp
    next
      case subOk: (Inr sb)
      have "serializeChildren (map eraseIds rest) = serializeChildren rest"
        by (rule "2.IH"(2)[OF ownOk subOk])
      with own ownOk sub subOk show ?thesis by simp
    qed
  qed
qed

lemma serializeTestPlan_eraseIds:
  "serializeTestPlan (tp\<lparr> tp_id := [], tp_children := map eraseIds (tp_children tp) \<rparr>) = serializeTestPlan tp"
  by (simp add: serializeTestPlan_def serializeChildren_eraseIds cong: sum.case_cong)

lemma serialize_eraseIdsPlan: "serialize (eraseIdsPlan p) = serialize p"
  by (simp add: serialize_def eraseIdsPlan_def serializeTestPlan_eraseIds cong: sum.case_cong)

subsection \<open>Round trip\<close>

text \<open>
  Claim C1. Parsing the serialization of a parsed file gives back the parsed tree, with the same
  kind-specific fields, \<^verbatim>\<open>ResultCollector.errorLogging\<close> among them. The code does not: for the
  file \<open>errorLoggingDoc\<close>, whose only element is a result collector of a known kind with
  \<^verbatim>\<open>ResultCollector.error_logging = true\<close>, the parsed tree has \<^verbatim>\<open>errorLogging = true\<close> and the
  tree parsed from its serialization has \<^verbatim>\<open>errorLogging = false\<close>, because
  \<^verbatim>\<open>serializeResultCollector\<close> (line 315) writes the text \<^verbatim>\<open>false\<close> whatever the field holds.
\<close>

theorem roundtrip_loses_errorLogging:
  "map (\<lambda>e. (etype e, errorLogging (kind e))) (childrenOf (parse errorLoggingDoc sampleIds))
     = [(''ResultCollector'', True)]
   \<and> map (\<lambda>e. (etype e, errorLogging (kind e))) (childrenOf (reparse errorLoggingDoc sampleIds sampleIds))
     = [(''ResultCollector'', False)]"
  by (simp add: errorLoggingDoc_def sample_eval parser_eval accessor_eval serializer_eval Let_def)

subsection \<open>Positional pairing\<close>

text \<open>
  Claim C2. The i-th element tag of a container in document order gets the i-th container tag in
  document order, for all interleavings of element kinds. The code does not: in the container
  \<open>interleavedDoc\<close>, which holds \<^verbatim>\<open>ThreadGroup A\<close>, \<^verbatim>\<open>HTTPSamplerProxy B\<close>, \<^verbatim>\<open>ThreadGroup C\<close>, each
  followed by its own container, the parser yields the elements in the order A, C, B, gives C the
  children of B's container and B the children of C's container. The loops of
  \<^verbatim>\<open>parseHashTree\<close> run over the keys of the node object, where the children are grouped by tag
  name, while \<^verbatim>\<open>hashTreeIndex\<close> counts the containers in document order.
\<close>

theorem interleaved_kinds_cross_attached:
  "shape (reconstruct interleavedDoc) = [(''A'', [''in-ca'']), (''C'', [''in-cb'']), (''B'', [''in-cc''])]"
  by (simp add: interleavedDoc_def sample_eval parser_eval accessor_eval Let_def)

text \<open>
  Claim C3. A container with a known element A, an element X of unknown test class and a known
  element B, each followed by its container, decodes to A with the children of A's container and
  B with the children of B's container. The code does so when the three tags are pairwise
  different (second equation), where dropping X skips X's container as well. It does not when A
  and B share a tag and X has another one (first equation): B then gets the children of X's
  container, by the grouping described at claim C2.
\<close>

theorem unknown_kind_between_equal_tags:
  "shape (reconstruct unknownMiddleDoc) = [(''A'', [''in-ca'']), (''B'', [''in-cx''])]
   \<and> shape (reconstruct unknownMiddleDistinctDoc) = [(''A'', [''in-ca'']), (''B'', [''in-cb''])]"
  by (simp add: unknownMiddleDoc_def unknownMiddleDistinctDoc_def sample_eval parser_eval accessor_eval Let_def)

subsection \<open>Kinds the serializer does not handle\<close>

text \<open>
  Claim C4. Serializing a tree with an element whose kind has no \<^verbatim>\<open>case\<close> in
  \<^verbatim>\<open>serializeElement\<close> fails loudly, and does not leave the element out while emitting
  structure for it. The code does the latter: for the plan \<open>droppedKindPlan\<close>, whose children are
  a \<^verbatim>\<open>JSONExtractor\<close> and a test action holding a timer, \<^verbatim>\<open>serializeElement\<close> appends nothing for
  the extractor and reports no failure, \<^verbatim>\<open>serializeChildren\<close> still emits the extractor's
  container, and in the file parsed back the test action is paired with that empty container and
  has lost its timer.
\<close>

theorem unhandled_kind_silently_omitted:
  "serializeElement jsonExtractor = Inr []
   \<and> serializeChildren [jsonExtractor] = Inr [Elem ''hashTree'' [] [] []]
   \<and> \<not> isl (serialize droppedKindPlan)
   \<and> shape (tp_children (testPlan droppedKindPlan)) = [(''JSON Extractor'', []), (''Pause'', [''T''])]
   \<and> shape (childrenOf (case serialize droppedKindPlan of Inl err \<Rightarrow> Inl err | Inr doc \<Rightarrow> parse doc sampleIds))
       = [(''Pause'', [])]"
  by (simp add: droppedKindPlan_def sample_eval parser_eval accessor_eval serializer_eval Let_def)


subsection \<open>Numbers and expressions\<close>

text \<open>
  Claim C5. A thread group whose loop count property holds \<^verbatim>\<open>${LOOP_COUNT}\<close> is parsed to the
  string \<^verbatim>\<open>${LOOP_COUNT}\<close>, serialized with that same text, and parsed again to the same string.
  For the file \<open>loopCountDoc\<close> the code does the first two (first and second equation) and not
  the third: \<^verbatim>\<open>serializeThreadGroup\<close> (line 152) writes the text into an \<^verbatim>\<open>intProp\<close>, for which
  \<^verbatim>\<open>parseIntProp\<close> returns \<^verbatim>\<open>parseInt('${LOOP_COUNT}', 10)\<close>, that is \<^verbatim>\<open>NaN\<close>, and
  \<^verbatim>\<open>NaN || 1\<close> makes the loop count the number 1.
\<close>

theorem loop_count_expression_lost_on_reparse:
  "map (\<lambda>e. loops (loopController (kind e))) (childrenOf (parse loopCountDoc sampleIds))
     = [S ''${LOOP_COUNT}'']
   \<and> namedIn ''LoopController.loops'' (serialized (parse loopCountDoc sampleIds))
     = [Elem ''intProp'' [(''name'', ''LoopController.loops'')] [] ''${LOOP_COUNT}'']
   \<and> map (\<lambda>e. loops (loopController (kind e))) (childrenOf (reparse loopCountDoc sampleIds sampleIds))
     = [N (Num 1)]"
  by (simp add: loopCountDoc_def sample_eval parser_eval accessor_eval serializer_eval Let_def)

text \<open>What \<^verbatim>\<open>parseIntOrStringProp\<close> returns, case by case.\<close>

lemma parseIntOrStringProp_cases:
  "parseIntOrStringProp xml nm =
    (case parseIntProp xml nm of
       Some v \<Rightarrow> Some (N v)
     | None \<Rightarrow>
         (case parseStringProp xml nm of
            None \<Rightarrow> None
          | Some str \<Rightarrow>
              if str = [] then None
              else if includes_str str ''${'' then Some (S str)
              else (case parseInt str of
                      NaN \<Rightarrow> Some (S str)
                    | Num i \<Rightarrow> if i = 0 then Some (S str) else Some (N (Num i)))))"
  by (auto simp: parseIntOrStringProp_def split: option.splits jsnumber.splits)

text \<open>
  Claim C6. The int-or-expression accessor returns a parsed integer for an integer-typed
  property, else the raw string of a string-typed property that contains \<^verbatim>\<open>${\<close>, else the integer
  parse of the string-typed property's text with the raw string as fallback, the text \<^verbatim>\<open>0\<close>
  giving the integer 0. The code does not at the text \<^verbatim>\<open>0\<close>: \<^verbatim>\<open>parseInt\<close> gives 0, which is
  falsy, so \<^verbatim>\<open>parseInt(strVal, 10) || strVal\<close> (line 473) returns the string \<^verbatim>\<open>0\<close>. Nor does an
  integer-typed property always give an integer: for the text \<^verbatim>\<open>abc\<close> the result is \<^verbatim>\<open>NaN\<close>.
\<close>

theorem zero_text_stays_a_string:
  "parseInt ''0'' = Num 0
   \<and> parseIntOrStringProp zeroDelayNode ''ThreadGroup.delay'' = Some (S ''0'')
   \<and> parseIntOrStringProp badIntNode ''ThreadGroup.delay'' = Some (N NaN)"
  by (simp add: zeroDelayNode_def badIntNode_def accessor_eval)

subsection \<open>Unequal numbers of element tags and container tags\<close>

text \<open>An absent container reads like an empty one: the result is the same when the array of
  containers is cut, or filled up with empty containers, to the number of element tags.\<close>

lemma containers_cut_or_filled:
  "parseHashTree (Some (XObj c fs)) s
     = parseHashTree (Some (XObj c (withContainers fs
         (fitContainers (length (elementTags fs)) (containerTags fs))))) s"
proof -
  let ?hts = "containerTags fs"
  let ?hts' = "fitContainers (length (elementTags fs)) ?hts"
  let ?fs' = "withContainers fs ?hts'"
  let ?ks = "elementKeys fs"
  have 1: "parseKeys (XObj c fs) ?hts ?ks 0 s = parseKeys (XObj c fs) ?hts' ?ks 0 s"
    by (rule parseKeys_cong_containers) (simp add: entriesOf_elementTags nthOpt_fit)
  have 2: "parseKeys (XObj c fs) ?hts' ?ks 0 s = parseKeys (XObj c ?fs') ?hts' ?ks 0 s"
    by (rule parseKeys_cong_object) (auto simp: elementKeys_def field_withContainers)
  have ks: "filter (\<lambda>k. k \<noteq> ''hashTree'') (map fst ?fs') = ?ks"
    using keys_withContainers[of fs ?hts'] by (simp add: elementKeys_def)
  show ?thesis
    using 1 2 ks containers_withContainers[of fs ?hts']
    by (simp add: elementKeys_def containerTags_def Let_def)
qed




subsection \<open>Identifiers are not written\<close>

text \<open>
  Claim C8. The serializer never writes an element's \<^verbatim>\<open>id\<close>: two trees that are equal except
  for the identifiers of their elements (and of the plan) have the same serialization.
\<close>

theorem serialize_ignores_ids:
  "eraseIdsPlan p = eraseIdsPlan q \<Longrightarrow> serialize p = serialize q"
  using serialize_eraseIdsPlan[of p] serialize_eraseIdsPlan[of q] by simp

theorem serialize_ignores_ids_witness:
  "samplePlan [timerElement ''id-7'' ''T''] \<noteq> samplePlan [timerElement ''id-8'' ''T'']
   \<and> serialize (samplePlan [timerElement ''id-7'' ''T'']) = serialize (samplePlan [timerElement ''id-8'' ''T''])"
proof -
  have h: "eraseIdsPlan (samplePlan [timerElement ''id-7'' ''T''])
         = eraseIdsPlan (samplePlan [timerElement ''id-8'' ''T''])"
    by (simp add: eraseIdsPlan_def samplePlan_def timerElement_def)
  from serialize_ignores_ids[OF h] show ?thesis
    by (simp add: samplePlan_def timerElement_def)
qed

subsection \<open>Defaults of the loop controller\<close>

text \<open>
  Claim C9, as the code has it. A thread group node without an explicit loop count is parsed to a
  loop controller with \<^verbatim>\<open>loops\<close> equal to the number 1. Its \<^verbatim>\<open>continueForever\<close> is false when
  the node has no \<^verbatim>\<open>LoopController\<close> block; when it has one, \<^verbatim>\<open>continueForever\<close> is what the
  block's \<^verbatim>\<open>LoopController.continue_forever\<close> property says (false when that is absent).
\<close>

theorem default_loop_count:
  assumes "lacksLoopCount xml"
  shows "loops (loopController (kind (fst (parseThreadGroup xml childHashTree ty s)))) = N (Num 1)
       \<and> continueForever (loopController (kind (fst (parseThreadGroup xml childHashTree ty s))))
           = (case findProp xml ''elementProp'' ''elementType'' ''LoopController'' of
                None \<Rightarrow> False
              | Some p \<Rightarrow> parseBoolProp p ''LoopController.continue_forever'')"
  using assms
  by (auto simp: kind_parseThreadGroup threadGroupFields_def parseLoopController_def lacksLoopCount_def
      parseIntOrStringProp_def parseIntProp_def parseStringProp_def orNumOrStr_def split: option.splits)

text \<open>The claim as the specification states it fails on \<open>foreverNode\<close>, which has no loop count
  and is parsed to \<^verbatim>\<open>continueForever = true\<close>.\<close>

theorem no_loop_count_yet_forever:
  "lacksLoopCount foreverNode
   \<and> continueForever (loopController (kind (fst (parseThreadGroup foreverNode None ''ThreadGroup'' sampleIds))))"
  by (simp add: kind_parseThreadGroup threadGroupFields_def parseLoopController_def lacksLoopCount_def
      foreverNode_def findProp_def hasAttr_def parseBoolProp_def getStringValueChars_def)

theorem default_loop_count_witness:
  "lacksLoopCount foreverNode
   \<and> loops (loopController (kind (fst (parseThreadGroup foreverNode None ''ThreadGroup'' sampleIds)))) = N (Num 1)"
proof -
  have h: "lacksLoopCount foreverNode"
    by (simp add: lacksLoopCount_def foreverNode_def findProp_def hasAttr_def)
  from default_loop_count[OF h, of None "''ThreadGroup''" sampleIds] show ?thesis
    using h by simp
qed

subsection \<open>The enabled flag\<close>

text \<open>
  Claim C10, as the code has it. Every element node of a known kind is decoded, and its decoded
  \<^verbatim>\<open>enabled\<close> flag is true exactly when what the parser reads as the node's \<^verbatim>\<open>enabled\<close>
  attribute, the first entry under the key \<^verbatim>\<open>enabled\<close>, is not the string \<^verbatim>\<open>false\<close> (first
  conjunct). For the node of an element of a document that entry is the element's \<^verbatim>\<open>enabled\<close>
  attribute when it has one, and otherwise its first child element tagged \<^verbatim>\<open>enabled\<close> (second
  conjunct). So every attribute value other than \<^verbatim>\<open>false\<close>, among them \<^verbatim>\<open>FALSE\<close>, \<^verbatim>\<open>0\<close> and the
  empty string, decodes to \<^verbatim>\<open>enabled = true\<close>; an absent attribute decodes to true on an element
  without a child element tagged \<^verbatim>\<open>enabled\<close>.
\<close>

theorem enabled_iff_entry_not_literal_false:
  "(decodes xml \<longrightarrow>
      (\<exists>e s'. parseElement tagName xml childHashTree s = Some (e, s')
         \<and> enabled e = (getStringValue (field xml ''enabled'') \<noteq> Some (XStr ''false''))))
   \<and> getStringValue (field (xml2js d) ''enabled'') = enabledEntry d"
  using parseElement_decodes_enabled[of xml tagName childHashTree s] enabledEntry_xml2js[of d]
  by (simp add: enabledOf_def)

text \<open>The claim as stated fails on \<open>childFalseDoc\<close>: the element has no \<^verbatim>\<open>enabled\<close> attribute
  and is decoded to \<^verbatim>\<open>enabled = false\<close>, because its child element \<^verbatim>\<open><enabled>false</enabled>\<close>
  is stored under the key the attribute would have.\<close>

theorem absent_attribute_decoded_disabled:
  "map_of (attrsOf childFalseDoc) ''enabled'' = None
   \<and> parseElement ''ThreadGroup'' (xml2js childFalseDoc) None sampleIds \<noteq> None
   \<and> \<not> enabled (fst (the (parseElement ''ThreadGroup'' (xml2js childFalseDoc) None sampleIds)))"
  by (simp add: childFalseDoc_def parser_eval accessor_eval Let_def)

theorem enabled_iff_entry_not_literal_false_witness:
  "decodes (xml2js disabledDoc)
   \<and> enabledEntry disabledDoc = Some (XStr ''false'')
   \<and> (\<exists>e s'. parseElement ''ThreadGroup'' (xml2js disabledDoc) None sampleIds = Some (e, s') \<and> \<not> enabled e)
   \<and> decodes (xml2js upperFalseDoc)
   \<and> enabledEntry upperFalseDoc = Some (XStr ''FALSE'')
   \<and> (\<exists>e s'. parseElement ''ThreadGroup'' (xml2js upperFalseDoc) None sampleIds = Some (e, s') \<and> enabled e)"
proof -
  have d1: "decodes (xml2js disabledDoc)" by (simp add: disabledDoc_def decodes_def testClassOf_def)
  have d2: "decodes (xml2js upperFalseDoc)" by (simp add: upperFalseDoc_def decodes_def testClassOf_def)
  have e1: "enabledEntry disabledDoc = Some (XStr ''false'')"
    by (simp add: enabledEntry_def disabledDoc_def)
  have e2: "enabledEntry upperFalseDoc = Some (XStr ''FALSE'')"
    by (simp add: enabledEntry_def upperFalseDoc_def)
  note t1 = enabled_iff_entry_not_literal_false
              [of "xml2js disabledDoc" "''ThreadGroup''" None sampleIds disabledDoc]
  note t2 = enabled_iff_entry_not_literal_false
              [of "xml2js upperFalseDoc" "''ThreadGroup''" None sampleIds upperFalseDoc]
  from t1 d1 e1
  have a: "\<exists>e s'. parseElement ''ThreadGroup'' (xml2js disabledDoc) None sampleIds = Some (e, s') \<and> \<not> enabled e"
    by auto
  from t2 d2 e2
  have b: "\<exists>e s'. parseElement ''ThreadGroup'' (xml2js upperFalseDoc) None sampleIds = Some (e, s') \<and> enabled e"
    by auto
  from d1 d2 e1 e2 a b show ?thesis by (simp only: simp_thms)
qed

end
